theory Spec2Isabelle
  imports Complex_Main
begin

section \<open>Message and simulator data\<close>

text \<open>
  The bridge of \<^verbatim>\<open>carla_simulation/vehicle_info_publisher.py\<close> moves ROS messages and CARLA
  values around. A Python float is the real number it stands for (the finite doubles;
  infinities and NaN are left out). A message object is a record; an
  attribute that a received object may lack is an \<open>option\<close> field, so that every attribute
  access of the source that can raise \<^verbatim>\<open>AttributeError\<close> is a branch of the model.

  The source shares \<^verbatim>\<open>std_msgs.msg.Header\<close> objects between messages and writes to one of
  them in place, so Header objects live in a heap and messages refer to them by address. The
  message records are polymorphic in the representation \<open>'h\<close> of a header: \<open>addr\<close> for an object
  in memory, \<open>Header\<close> for the serialised message that a publisher sends.
\<close>

type_synonym addr = nat

record Time =
  time_sec :: int
  time_nanosec :: nat

record Header =
  stamp :: Time
  frame_id :: string

record Vector3 =
  v3_x :: real
  v3_y :: real
  v3_z :: real

record Quaternion =
  q_x :: real
  q_y :: real
  q_z :: real
  q_w :: real

record Twist =
  tw_linear :: Vector3
  tw_angular :: Vector3

text \<open>Inbound messages. \<open>pc_data\<close> stands for the point buffer and its layout fields, which the
  source never reads.\<close>

record 'h PointCloud2 =
  pc_header :: "'h option"
  pc_data :: "nat list option"

record 'h NavSatFix =
  fix_header :: "'h option"
  fix_latitude :: "real option"
  fix_longitude :: "real option"
  fix_altitude :: "real option"

record 'h Imu =
  imu_header :: "'h option"
  imu_orientation :: "Quaternion option"
  imu_angular_velocity :: "Vector3 option"
  imu_linear_acceleration :: "Vector3 option"

text \<open>\<^verbatim>\<open>nav_msgs.msg.Odometry\<close>, with the three slots the source assigns: \<^verbatim>\<open>header\<close>,
  \<^verbatim>\<open>pose.pose\<close> (which receives the Vector3 \<^verbatim>\<open>pseudo_position\<close>) and \<^verbatim>\<open>twist.twist\<close>.\<close>

record 'h Odometry =
  odo_header :: 'h
  odo_pose_pose :: Vector3
  odo_twist_twist :: Twist

text \<open>Modelled from the spec: the message types of the package \<^verbatim>\<open>sensor_driver_msgs\<close>, which
  is not among the source files. The records have the fields of the outbound schemas of the
  specification, which are the fields that the source assigns. \<open>'o\<close> is the representation of
  the nested Odometry: an address in memory, the message itself when serialised.\<close>

record 'h GpswithHeading =
  gps_header :: 'h
  gps_gps :: "'h NavSatFix"
  gps_roll :: real
  gps_pitch :: real
  gps_heading :: real

record ('h, 'o) OdometrywithGps =
  og_header :: 'h
  og_gps :: "'h NavSatFix"
  og_odometry :: 'o

record 'h InsVelocity =
  vel_header :: 'h
  vel_angular_velocity :: Vector3
  vel_linear_velocity :: Vector3

record 'h Vector3Stamped =
  pos_header :: 'h
  pos_vector :: Vector3

text \<open>CARLA values: \<^verbatim>\<open>carla.Vector3D\<close> / \<^verbatim>\<open>carla.Location\<close>, \<^verbatim>\<open>carla.Rotation\<close>,
  \<^verbatim>\<open>carla.Transform\<close>. A \<open>Vehicle\<close> is what the three getters of \<^verbatim>\<open>carla.Vehicle\<close> answer
  when one publish cycle polls them.\<close>

record Vector3D =
  c_x :: real
  c_y :: real
  c_z :: real

record Rotation =
  rot_pitch :: real
  rot_yaw :: real
  rot_roll :: real

record Transform =
  location :: Vector3D
  rotation :: Rotation

record Vehicle =
  get_velocity :: Vector3D
  get_angular_velocity :: Vector3D
  get_transform :: Transform

text \<open>The module \<^verbatim>\<open>carla_data_to_ros\<close> is imported by the source and is not among the source
  files. The publisher takes its two functions as a parameter.\<close>

record carla_data_to_ros =
  carla_location_to_ros_vector3 :: "Vector3D \<Rightarrow> Vector3"
  carla_velocity_to_ros_twist :: "Vector3D \<Rightarrow> Vector3D \<Rightarrow> Twist"

subsection \<open>Float subtraction\<close>

text \<open>
  The one arithmetic operation of the source is \<^verbatim>\<open>self.pseudo_heading.yaw - 90\<close>, a subtraction
  of Python floats: the exact difference rounded to the nearest IEEE 754 double, a tie going
  to the even significand. \<open>binade n v\<close> is the exponent \<open>e\<close> with \<open>2^e \<le> v < 2^(e+1)\<close>, found in
  at most \<open>n\<close> steps (2100 steps reach every exponent of a double); a double has a significand
  of 53 bits, so its unit in the last place is \<open>2^(e-52)\<close>, and \<open>2^-1074\<close> below the normal
  range. A difference beyond the largest double, which Python gives as \<^verbatim>\<open>inf\<close>, does not arise
  from subtracting 90 from a finite double.
\<close>

definition round_half_even :: "real \<Rightarrow> int" where
  "round_half_even q =
     (let f = \<lfloor>q\<rfloor>; d = q - of_int f
      in if d < 1 / 2 then f else if 1 / 2 < d then f + 1 else if even f then f else f + 1)"

fun binade :: "nat \<Rightarrow> real \<Rightarrow> int" where
  "binade 0 v = 0"
| "binade (Suc n) v =
     (if 2 \<le> v then binade n (v / 2) + 1 else if v < 1 then binade n (v * 2) - 1 else 0)"

definition round_double :: "real \<Rightarrow> real" where
  "round_double v =
     (if v = 0 then 0
      else let e = max (binade 2100 \<bar>v\<bar>) (- 1022);
               ulp = 2 powi (e - 52)
           in sgn v * of_int (round_half_even (\<bar>v\<bar> / ulp)) * ulp)"

definition float_sub :: "real \<Rightarrow> real \<Rightarrow> real" where
  "float_sub a b = round_double (a - b)"

section \<open>Configuration values, endpoints, effects\<close>

text \<open>The configuration is a Python \<^verbatim>\<open>Dict\<close> read from JSON.\<close>

datatype pyval =
    PNone
  | PBool bool
  | PInt int
  | PFloat real
  | PStr string
  | PList "pyval list"
  | PDict "(string \<times> pyval) list"

type_synonym config_dict = "string \<rightharpoonup> pyval"

definition config_get :: "config_dict \<Rightarrow> string \<Rightarrow> pyval" where
  "config_get cfg key = (case cfg key of None \<Rightarrow> PNone | Some v \<Rightarrow> v)"

text \<open>Python truth value of a configuration value, as \<^verbatim>\<open>not config.get(topic)\<close> tests it.\<close>

fun truthy :: "pyval \<Rightarrow> bool" where
  "truthy PNone = False"
| "truthy (PBool b) = b"
| "truthy (PInt i) = (i \<noteq> 0)"
| "truthy (PFloat r) = (r \<noteq> 0)"
| "truthy (PStr s) = (s \<noteq> [])"
| "truthy (PList xs) = (xs \<noteq> [])"
| "truthy (PDict kvs) = (kvs \<noteq> [])"

datatype msg_type =
    NavSatFixT | ImuT | PointCloud2T
  | GpswithHeadingT | OdometrywithGpsT | InsVelocityT | Vector3StampedT

text \<open>An endpoint of the node, identified by the arguments it was created with.\<close>

datatype handle =
    Subscription msg_type pyval
  | Publisher msg_type pyval
  | Timer pyval

datatype wire =
    WPointCloud2 "Header PointCloud2"
  | WGpswithHeading "Header GpswithHeading"
  | WOdometrywithGps "(Header, Header Odometry) OdometrywithGps"
  | WInsVelocity "Header InsVelocity"
  | WImu "Header Imu"
  | WVector3Stamped "Header Vector3Stamped"

datatype level = DEBUG | WARNING | ERROR

text \<open>Everything the bridge does to the outside, in the order it does it.\<close>

datatype event =
    Log level string
  | Created handle
  | Cancelled handle
  | Destroyed handle
  | Publish handle wire

datatype error =
    AttributeError string
  | RclpyError handle

section \<open>The publisher object\<close>

text \<open>
  One \<^verbatim>\<open>VehicleInfoPublisher\<close> together with the part of the Python heap it can reach.
  \<open>heap\<close> holds the Header objects and \<open>odometries\<close> the Odometry objects; \<open>trace\<close> collects
  the effects. The data attributes are those of the class body; the endpoint attributes exist
  only once \<^verbatim>\<open>__init__\<close> has assigned them, hence \<open>option\<close>. The four built messages
  (\<open>gps_data\<close>, \<open>odom_data\<close>, \<open>velocity_data\<close>, \<open>position_data\<close>) are never rebound by the source:
  each field below is the one object that every cycle updates in place.
\<close>

record state =
  heap :: "addr \<Rightarrow> Header"
  odometries :: "addr \<Rightarrow> addr Odometry"
  trace :: "event list"
  header :: addr
  carla_lidar_data :: "addr PointCloud2"
  carla_gnss_data :: "addr NavSatFix"
  carla_imu_data :: "addr Imu"
  lidar_data :: "addr PointCloud2"
  imu_data :: "addr Imu"
  position_data :: "addr Vector3Stamped"
  gps_data :: "addr GpswithHeading"
  odom_data :: "(addr, addr) OdometrywithGps"
  velocity_data :: "addr InsVelocity"
  pseudo_odom :: addr
  pseudo_position :: Vector3
  pseudo_velocity :: Twist
  pseudo_heading :: "Rotation option"
  config :: "config_dict option"
  gnss_sub :: "handle option"
  imu_sub :: "handle option"
  lidar_sub :: "handle option"
  lidar_pub :: "handle option"
  gps_pub :: "handle option"
  odom_pub :: "handle option"
  velocity_pub :: "handle option"
  imu_pub :: "handle option"
  position_pub :: "handle option"
  timer :: "handle option"

text \<open>A method body: it may raise, and the object keeps whatever was assigned before.\<close>

type_synonym stmt = "state \<Rightarrow> error option \<times> state"

fun stmts :: "stmt list \<Rightarrow> stmt" where
  "stmts [] s = (None, s)"
| "stmts (f # fs) s =
     (case f s of (None, s') \<Rightarrow> stmts fs s' | (Some e, s') \<Rightarrow> (Some e, s'))"

definition log :: "level \<Rightarrow> string \<Rightarrow> stmt" where
  "log lv text s = (None, s\<lparr>trace := trace s @ [Log lv text]\<rparr>)"

subsection \<open>Validation of the configuration\<close>

definition required_topics :: "string list" where
  "required_topics =
     [''loop_rate'', ''gnss_sub_topic'', ''imu_sub_topic'', ''lidar_sub_topic'',
      ''lidar_pub_topic'', ''gps_pub_topic'', ''odom_pub_topic'', ''velocity_pub_topic'',
      ''imu_pub_topic'', ''position_pub_topic'']"

text \<open>The loop over \<open>required_topics\<close>; the result is the flag and the lines logged.\<close>

definition check_topic :: "config_dict \<Rightarrow> string \<Rightarrow> bool \<times> event list \<Rightarrow> bool \<times> event list" where
  "check_topic cfg topic acc =
     (if \<not> truthy (config_get cfg topic)
      then (False, snd acc @ [Log ERROR (''Missing configuration of '' @ topic)])
      else acc)"

definition check_config :: "config_dict \<Rightarrow> bool \<times> event list" where
  "check_config cfg = fold (check_topic cfg) required_topics (True, [])"

subsection \<open>Construction and cleanup\<close>

text \<open>\<^verbatim>\<open>create_subscription\<close>, \<^verbatim>\<open>create_publisher\<close> and \<^verbatim>\<open>create_timer\<close> belong to rclpy.
  \<open>accepts\<close> says for which arguments rclpy creates the endpoint; otherwise it raises, and the
  attribute is not assigned.\<close>

definition create :: "(handle \<Rightarrow> bool) \<Rightarrow> handle \<Rightarrow> (handle option \<Rightarrow> state \<Rightarrow> state) \<Rightarrow> stmt" where
  "create accepts h assign s =
     (if accepts h then (None, assign (Some h) (s\<lparr>trace := trace s @ [Created h]\<rparr>))
      else (Some (RclpyError h), s))"

text \<open>\<^verbatim>\<open>__init__\<close>. Creating the node (\<^verbatim>\<open>super().__init__\<close>) and keeping the vehicle are left
  out: what the vehicle answers is an argument of each publish cycle.\<close>

definition init :: "(handle \<Rightarrow> bool) \<Rightarrow> config_dict \<Rightarrow> stmt" where
  "init accepts cfg = stmts
     [(\<lambda>s. (None, s\<lparr>config := Some cfg\<rparr>)),
      create accepts (Subscription NavSatFixT (config_get cfg ''gnss_sub_topic''))
        (\<lambda>h s. s\<lparr>gnss_sub := h\<rparr>),
      create accepts (Subscription ImuT (config_get cfg ''imu_sub_topic''))
        (\<lambda>h s. s\<lparr>imu_sub := h\<rparr>),
      create accepts (Subscription PointCloud2T (config_get cfg ''lidar_sub_topic''))
        (\<lambda>h s. s\<lparr>lidar_sub := h\<rparr>),
      create accepts (Publisher PointCloud2T (config_get cfg ''lidar_pub_topic''))
        (\<lambda>h s. s\<lparr>lidar_pub := h\<rparr>),
      create accepts (Publisher GpswithHeadingT (config_get cfg ''gps_pub_topic''))
        (\<lambda>h s. s\<lparr>gps_pub := h\<rparr>),
      create accepts (Publisher OdometrywithGpsT (config_get cfg ''odom_pub_topic''))
        (\<lambda>h s. s\<lparr>odom_pub := h\<rparr>),
      create accepts (Publisher InsVelocityT (config_get cfg ''velocity_pub_topic''))
        (\<lambda>h s. s\<lparr>velocity_pub := h\<rparr>),
      create accepts (Publisher ImuT (config_get cfg ''imu_pub_topic''))
        (\<lambda>h s. s\<lparr>imu_pub := h\<rparr>),
      create accepts (Publisher Vector3StampedT (config_get cfg ''position_pub_topic''))
        (\<lambda>h s. s\<lparr>position_pub := h\<rparr>),
      create accepts (Timer (config_get cfg ''loop_rate''))
        (\<lambda>h s. s\<lparr>timer := h\<rparr>)]"

text \<open>Reading a list of attributes in order: the first missing one raises.\<close>

fun attributes :: "(string \<times> 'a option) list \<Rightarrow> string + 'a list" where
  "attributes [] = Inr []"
| "attributes ((name, None) # rest) = Inl name"
| "attributes ((name, Some v) # rest) =
     (case attributes rest of Inl n \<Rightarrow> Inl n | Inr vs \<Rightarrow> Inr (v # vs))"

definition destroy :: "handle \<Rightarrow> state \<Rightarrow> state" where
  "destroy pub s = s\<lparr>trace := trace s @ [Destroyed pub]\<rparr>"

definition cleanup :: stmt where
  "cleanup = stmts
     [(\<lambda>s. case timer s of
              Some t \<Rightarrow> (None, s\<lparr>trace := trace s @ [Cancelled t]\<rparr>)
            | None \<Rightarrow> (None, s)),
      (\<lambda>s. case attributes
                   [(''lidar_pub'', lidar_pub s), (''gps_pub'', gps_pub s),
                    (''odom_pub'', odom_pub s), (''velocity_pub'', velocity_pub s),
                    (''imu_pub'', imu_pub s), (''position_pub'', position_pub s)] of
              Inl name \<Rightarrow> (Some (AttributeError name), s)
            | Inr publishers \<Rightarrow> (None, fold destroy publishers s))]"

subsection \<open>Callbacks\<close>

definition update_carla_lidar_data :: "addr PointCloud2 \<Rightarrow> stmt" where
  "update_carla_lidar_data msg s =
     (case pc_header msg of
        None \<Rightarrow> (Some (AttributeError ''header''), s)
      | Some a \<Rightarrow>
          (None, s\<lparr>header := a,
                   heap := (heap s)(a := (heap s a)\<lparr>frame_id := ''odom''\<rparr>),
                   carla_lidar_data := msg,
                   trace := trace s @ [Log DEBUG ''Received lidar data'']\<rparr>))"

definition update_carla_gnss_data :: "addr NavSatFix \<Rightarrow> stmt" where
  "update_carla_gnss_data msg s =
     (None, s\<lparr>carla_gnss_data := msg,
              trace := trace s @ [Log DEBUG ''Received gnss data'']\<rparr>)"

definition update_carla_imu_data :: "addr Imu \<Rightarrow> stmt" where
  "update_carla_imu_data msg s =
     (None, s\<lparr>carla_imu_data := msg,
              trace := trace s @ [Log DEBUG ''Received imu data'']\<rparr>)"

subsection \<open>The publish cycle\<close>

definition update_vehicle_state_info :: "Vehicle \<Rightarrow> carla_data_to_ros \<Rightarrow> stmt" where
  "update_vehicle_state_info vehicle conv s =
     (let ego_velocity = get_velocity vehicle;
          ego_angular_velocity = get_angular_velocity vehicle;
          ego_transform = get_transform vehicle;
          ego_location = location ego_transform;
          ego_rotation = rotation ego_transform;
          s1 = s\<lparr>pseudo_heading := Some ego_rotation,
                 pseudo_position := carla_location_to_ros_vector3 conv ego_location,
                 pseudo_velocity :=
                   carla_velocity_to_ros_twist conv ego_velocity ego_angular_velocity\<rparr>
      in (None, s1\<lparr>odometries := (odometries s1)
                    (pseudo_odom s1 := (odometries s1 (pseudo_odom s1))
                       \<lparr>odo_header := header s1,
                        odo_pose_pose := pseudo_position s1,
                        odo_twist_twist := pseudo_velocity s1\<rparr>)\<rparr>))"

definition get_lidar_data :: stmt where
  "get_lidar_data s = (None, s\<lparr>lidar_data := carla_lidar_data s\<rparr>)"

definition get_gps_data :: stmt where
  "get_gps_data s =
     (case fix_header (carla_gnss_data s) of
        None \<Rightarrow> (Some (AttributeError ''header''), s)
      | Some a \<Rightarrow>
          (let s1 = s\<lparr>gps_data := (gps_data s)\<lparr>gps_header := a, gps_gps := carla_gnss_data s\<rparr>\<rparr>
           in case pseudo_heading s1 of
                None \<Rightarrow> (Some (AttributeError ''roll''), s1)
              | Some r \<Rightarrow>
                  (None, s1\<lparr>gps_data := (gps_data s1)
                            \<lparr>gps_roll := rot_roll r,
                             gps_pitch := rot_pitch r,
                             gps_heading := float_sub (rot_yaw r) 90\<rparr>\<rparr>)))"

definition get_odom_data :: stmt where
  "get_odom_data s =
     (None, s\<lparr>odom_data := (odom_data s)
               \<lparr>og_header := header s,
                og_gps := carla_gnss_data s,
                og_odometry := pseudo_odom s\<rparr>\<rparr>)"

definition get_velocity_data :: stmt where
  "get_velocity_data s =
     (let s1 = s\<lparr>velocity_data := (velocity_data s)\<lparr>vel_header := header s\<rparr>\<rparr>
      in case imu_angular_velocity (carla_imu_data s1) of
           None \<Rightarrow> (Some (AttributeError ''angular_velocity''), s1)
         | Some w \<Rightarrow>
             (None, s1\<lparr>velocity_data := (velocity_data s1)
                       \<lparr>vel_angular_velocity := w,
                        vel_linear_velocity := tw_linear (pseudo_velocity s1),
                        vel_angular_velocity := tw_angular (pseudo_velocity s1)\<rparr>\<rparr>))"

definition get_imu_data :: stmt where
  "get_imu_data s = (None, s\<lparr>imu_data := carla_imu_data s\<rparr>)"

definition get_position_data :: stmt where
  "get_position_data s =
     (None, s\<lparr>position_data := (position_data s)
               \<lparr>pos_header := header s,
                pos_vector := pseudo_position s\<rparr>\<rparr>)"

text \<open>What a publisher sends is the message as it is at the time of the call: the headers are
  read from the heap, the nested Odometry from \<open>odometries\<close>.\<close>

definition wire_cloud :: "(addr \<Rightarrow> Header) \<Rightarrow> addr PointCloud2 \<Rightarrow> Header PointCloud2" where
  "wire_cloud hp m = \<lparr>pc_header = map_option hp (pc_header m), pc_data = pc_data m\<rparr>"

definition wire_fix :: "(addr \<Rightarrow> Header) \<Rightarrow> addr NavSatFix \<Rightarrow> Header NavSatFix" where
  "wire_fix hp m =
     \<lparr>fix_header = map_option hp (fix_header m), fix_latitude = fix_latitude m,
      fix_longitude = fix_longitude m, fix_altitude = fix_altitude m\<rparr>"

definition wire_imu :: "(addr \<Rightarrow> Header) \<Rightarrow> addr Imu \<Rightarrow> Header Imu" where
  "wire_imu hp m =
     \<lparr>imu_header = map_option hp (imu_header m), imu_orientation = imu_orientation m,
      imu_angular_velocity = imu_angular_velocity m,
      imu_linear_acceleration = imu_linear_acceleration m\<rparr>"

definition wire_odometry :: "(addr \<Rightarrow> Header) \<Rightarrow> addr Odometry \<Rightarrow> Header Odometry" where
  "wire_odometry hp m =
     \<lparr>odo_header = hp (odo_header m), odo_pose_pose = odo_pose_pose m,
      odo_twist_twist = odo_twist_twist m\<rparr>"

definition wire_gps :: "(addr \<Rightarrow> Header) \<Rightarrow> addr GpswithHeading \<Rightarrow> Header GpswithHeading" where
  "wire_gps hp m =
     \<lparr>gps_header = hp (gps_header m), gps_gps = wire_fix hp (gps_gps m),
      gps_roll = gps_roll m, gps_pitch = gps_pitch m, gps_heading = gps_heading m\<rparr>"

definition wire_odom ::
  "(addr \<Rightarrow> Header) \<Rightarrow> (addr \<Rightarrow> addr Odometry) \<Rightarrow> (addr, addr) OdometrywithGps
     \<Rightarrow> (Header, Header Odometry) OdometrywithGps" where
  "wire_odom hp od m =
     \<lparr>og_header = hp (og_header m), og_gps = wire_fix hp (og_gps m),
      og_odometry = wire_odometry hp (od (og_odometry m))\<rparr>"

definition wire_velocity :: "(addr \<Rightarrow> Header) \<Rightarrow> addr InsVelocity \<Rightarrow> Header InsVelocity" where
  "wire_velocity hp m =
     \<lparr>vel_header = hp (vel_header m), vel_angular_velocity = vel_angular_velocity m,
      vel_linear_velocity = vel_linear_velocity m\<rparr>"

definition wire_position :: "(addr \<Rightarrow> Header) \<Rightarrow> addr Vector3Stamped \<Rightarrow> Header Vector3Stamped" where
  "wire_position hp m = \<lparr>pos_header = hp (pos_header m), pos_vector = pos_vector m\<rparr>"

definition publish :: "(state \<Rightarrow> handle option) \<Rightarrow> string \<Rightarrow> (state \<Rightarrow> wire) \<Rightarrow> stmt" where
  "publish pub name msg s =
     (case pub s of
        None \<Rightarrow> (Some (AttributeError name), s)
      | Some h \<Rightarrow> (None, s\<lparr>trace := trace s @ [Publish h (msg s)]\<rparr>))"

definition publish_vehicle_data :: "Vehicle \<Rightarrow> carla_data_to_ros \<Rightarrow> stmt" where
  "publish_vehicle_data vehicle conv = stmts
     [update_vehicle_state_info vehicle conv,
      get_lidar_data,
      get_gps_data,
      get_odom_data,
      get_velocity_data,
      get_imu_data,
      get_position_data,
      publish lidar_pub ''lidar_pub'' (\<lambda>s. WPointCloud2 (wire_cloud (heap s) (lidar_data s))),
      publish gps_pub ''gps_pub'' (\<lambda>s. WGpswithHeading (wire_gps (heap s) (gps_data s))),
      publish odom_pub ''odom_pub''
        (\<lambda>s. WOdometrywithGps (wire_odom (heap s) (odometries s) (odom_data s))),
      publish velocity_pub ''velocity_pub''
        (\<lambda>s. WInsVelocity (wire_velocity (heap s) (velocity_data s))),
      publish imu_pub ''imu_pub'' (\<lambda>s. WImu (wire_imu (heap s) (imu_data s))),
      publish position_pub ''position_pub''
        (\<lambda>s. WVector3Stamped (wire_position (heap s) (position_data s))),
      log DEBUG ''Data published'']"

subsection \<open>Callbacks as the executor delivers them\<close>

text \<open>rclpy runs one callback at a time: a message handed to one of the three subscription
  callbacks, or a tick of the timer, which runs \<open>publish_vehicle_data\<close> against what the
  vehicle answers at that moment. An exception ends the run.\<close>

datatype callback =
    LidarMsg "addr PointCloud2"
  | GnssMsg "addr NavSatFix"
  | ImuMsg "addr Imu"
  | TimerTick Vehicle

fun dispatch :: "carla_data_to_ros \<Rightarrow> callback \<Rightarrow> stmt" where
  "dispatch conv (LidarMsg m) = update_carla_lidar_data m"
| "dispatch conv (GnssMsg m) = update_carla_gnss_data m"
| "dispatch conv (ImuMsg m) = update_carla_imu_data m"
| "dispatch conv (TimerTick vehicle) = publish_vehicle_data vehicle conv"

definition spin :: "carla_data_to_ros \<Rightarrow> callback list \<Rightarrow> stmt" where
  "spin conv cs = stmts (map (dispatch conv) cs)"

subsection \<open>The class attributes\<close>

text \<open>The object before \<^verbatim>\<open>__init__\<close> runs: every data attribute resolves to the default
  message built in the class body, each with Header objects of its own (addresses 0 to 13), and
  no endpoint attribute exists. The two Odometry objects are \<^verbatim>\<open>pseudo_odom\<close> (address 0) and the
  default \<^verbatim>\<open>odometry\<close> of \<^verbatim>\<open>odom_data\<close> (address 1).\<close>

definition default_header :: Header where
  "default_header = \<lparr>stamp = \<lparr>time_sec = 0, time_nanosec = 0\<rparr>, frame_id = []\<rparr>"

definition default_vector3 :: Vector3 where
  "default_vector3 = \<lparr>v3_x = 0, v3_y = 0, v3_z = 0\<rparr>"

definition default_twist :: Twist where
  "default_twist = \<lparr>tw_linear = default_vector3, tw_angular = default_vector3\<rparr>"

definition default_cloud :: "addr \<Rightarrow> addr PointCloud2" where
  "default_cloud a = \<lparr>pc_header = Some a, pc_data = Some []\<rparr>"

definition default_fix :: "addr \<Rightarrow> addr NavSatFix" where
  "default_fix a =
     \<lparr>fix_header = Some a, fix_latitude = Some 0, fix_longitude = Some 0, fix_altitude = Some 0\<rparr>"

definition default_imu :: "addr \<Rightarrow> addr Imu" where
  "default_imu a =
     \<lparr>imu_header = Some a,
      imu_orientation = Some \<lparr>q_x = 0, q_y = 0, q_z = 0, q_w = 1\<rparr>,
      imu_angular_velocity = Some default_vector3,
      imu_linear_acceleration = Some default_vector3\<rparr>"

definition VehicleInfoPublisher :: state where
  "VehicleInfoPublisher =
     \<lparr>heap = (\<lambda>a. default_header),
      odometries = (\<lambda>a. \<lparr>odo_header = (if a = 0 then 13 else 11),
                          odo_pose_pose = default_vector3,
                          odo_twist_twist = default_twist\<rparr>),
      trace = [],
      header = 0,
      carla_lidar_data = default_cloud 1,
      carla_gnss_data = default_fix 2,
      carla_imu_data = default_imu 3,
      lidar_data = default_cloud 4,
      imu_data = default_imu 5,
      position_data = \<lparr>pos_header = 6, pos_vector = default_vector3\<rparr>,
      gps_data = \<lparr>gps_header = 7, gps_gps = default_fix 8,
                  gps_roll = 0, gps_pitch = 0, gps_heading = 0\<rparr>,
      odom_data = \<lparr>og_header = 9, og_gps = default_fix 10, og_odometry = 1\<rparr>,
      velocity_data = \<lparr>vel_header = 12, vel_angular_velocity = default_vector3,
                       vel_linear_velocity = default_vector3\<rparr>,
      pseudo_odom = 0,
      pseudo_position = default_vector3,
      pseudo_velocity = default_twist,
      pseudo_heading = None,
      config = None,
      gnss_sub = None, imu_sub = None, lidar_sub = None,
      lidar_pub = None, gps_pub = None, odom_pub = None,
      velocity_pub = None, imu_pub = None, position_pub = None,
      timer = None\<rparr>"

subsection \<open>Observing a run\<close>

text \<open>The effects added between two states, the messages among them, and the header a
  published message carries.\<close>

definition emitted :: "state \<Rightarrow> state \<Rightarrow> event list" where
  "emitted s s' = drop (length (trace s)) (trace s')"

fun published :: "event list \<Rightarrow> wire list" where
  "published [] = []"
| "published (Publish h w # es) = w # published es"
| "published (e # es) = published es"

fun wire_header :: "wire \<Rightarrow> Header option" where
  "wire_header (WPointCloud2 m) = pc_header m"
| "wire_header (WGpswithHeading m) = Some (gps_header m)"
| "wire_header (WOdometrywithGps m) = Some (og_header m)"
| "wire_header (WInsVelocity m) = Some (vel_header m)"
| "wire_header (WImu m) = imu_header m"
| "wire_header (WVector3Stamped m) = Some (pos_header m)"

text \<open>The most recent write to each stream in a sequence of callbacks, or the value held before
  when the sequence has none: what last-write-wins asks the stored fields to be.\<close>

fun most_recent_lidar :: "callback list \<Rightarrow> addr PointCloud2 \<Rightarrow> addr PointCloud2" where
  "most_recent_lidar [] d = d"
| "most_recent_lidar (LidarMsg m # cs) d = most_recent_lidar cs m"
| "most_recent_lidar (c # cs) d = most_recent_lidar cs d"

fun most_recent_gnss :: "callback list \<Rightarrow> addr NavSatFix \<Rightarrow> addr NavSatFix" where
  "most_recent_gnss [] d = d"
| "most_recent_gnss (GnssMsg m # cs) d = most_recent_gnss cs m"
| "most_recent_gnss (c # cs) d = most_recent_gnss cs d"

fun most_recent_imu :: "callback list \<Rightarrow> addr Imu \<Rightarrow> addr Imu" where
  "most_recent_imu [] d = d"
| "most_recent_imu (ImuMsg m # cs) d = most_recent_imu cs m"
| "most_recent_imu (c # cs) d = most_recent_imu cs d"

fun is_write :: "callback \<Rightarrow> bool" where
  "is_write (TimerTick v) = False"
| "is_write c = True"

fun is_lidar :: "callback \<Rightarrow> bool" where
  "is_lidar (LidarMsg m) = True"
| "is_lidar c = False"

text \<open>A LiDAR message without a \<^verbatim>\<open>header\<close> makes its callback raise; every other message is
  stored whatever it lacks.\<close>

fun has_header :: "callback \<Rightarrow> bool" where
  "has_header (LidarMsg m) = (pc_header m \<noteq> None)"
| "has_header c = True"

subsection \<open>Stand-ins for what is outside the sources\<close>

text \<open>Modelled from the spec: the two functions of \<^verbatim>\<open>carla_data_to_ros\<close>, which is not among
  the source files. The specification describes both as a direct field copy:
  \<open>positionToVector\<close> copies the location, \<open>kinematicsToTwist\<close> copies the linear and angular
  velocity into a pair.\<close>

definition direct_copy :: "Vector3D \<Rightarrow> Vector3" where
  "direct_copy v = \<lparr>v3_x = c_x v, v3_y = c_y v, v3_z = c_z v\<rparr>"

definition carla_data_to_ros_spec :: carla_data_to_ros where
  "carla_data_to_ros_spec =
     \<lparr>carla_location_to_ros_vector3 = direct_copy,
      carla_velocity_to_ros_twist = (\<lambda>v w. \<lparr>tw_linear = direct_copy v, tw_angular = direct_copy w\<rparr>)\<rparr>"

text \<open>An rclpy for the concrete runs below: it creates a subscription or a publisher for a
  topic that is a non-empty string, and a timer for a period that is a number and not negative.
  The general theorems hold for every \<open>accepts\<close>.\<close>

fun rclpy_accepts :: "handle \<Rightarrow> bool" where
  "rclpy_accepts (Subscription ty (PStr topic)) = (topic \<noteq> [])"
| "rclpy_accepts (Publisher ty (PStr topic)) = (topic \<noteq> [])"
| "rclpy_accepts (Timer (PFloat period)) = (0 \<le> period)"
| "rclpy_accepts (Timer (PInt period)) = (0 \<le> period)"
| "rclpy_accepts h = False"

text \<open>A configuration with the nine topic names, to which a \<^verbatim>\<open>loop_rate\<close> is added or not.\<close>

definition topics_config :: config_dict where
  "topics_config = map_of
     [(''gnss_sub_topic'', PStr ''/carla/gnss''),
      (''imu_sub_topic'', PStr ''/carla/imu''),
      (''lidar_sub_topic'', PStr ''/carla/lidar''),
      (''lidar_pub_topic'', PStr ''/lidar''),
      (''gps_pub_topic'', PStr ''/gps''),
      (''odom_pub_topic'', PStr ''/odom''),
      (''velocity_pub_topic'', PStr ''/velocity''),
      (''imu_pub_topic'', PStr ''/imu''),
      (''position_pub_topic'', PStr ''/position'')]"

definition example_config :: config_dict where
  "example_config = topics_config(''loop_rate'' \<mapsto> PFloat (1 / 10))"

definition example_bridge :: state where
  "example_bridge = snd (init rclpy_accepts example_config VehicleInfoPublisher)"

definition example_vehicle :: Vehicle where
  "example_vehicle =
     \<lparr>get_velocity = \<lparr>c_x = 1, c_y = 0, c_z = 0\<rparr>,
      get_angular_velocity = \<lparr>c_x = 0, c_y = 0, c_z = 1 / 2\<rparr>,
      get_transform =
        \<lparr>location = \<lparr>c_x = 10, c_y = 20, c_z = 30\<rparr>,
         rotation = \<lparr>rot_pitch = 0, rot_yaw = 90, rot_roll = 0\<rparr>\<rparr>\<rparr>"

text \<open>Sample messages for the concrete runs.\<close>

definition example_cloud :: "addr PointCloud2" where
  "example_cloud = \<lparr>pc_header = Some 100, pc_data = Some [1, 2, 3]\<rparr>"

definition example_fix :: "addr NavSatFix" where
  "example_fix =
     \<lparr>fix_header = Some 101, fix_latitude = Some 1, fix_longitude = Some 2,
      fix_altitude = Some 3\<rparr>"

definition example_imu :: "addr Imu" where
  "example_imu =
     \<lparr>imu_header = Some 102, imu_orientation = Some \<lparr>q_x = 0, q_y = 0, q_z = 0, q_w = 1\<rparr>,
      imu_angular_velocity = Some \<lparr>v3_x = 0, v3_y = 0, v3_z = 1\<rparr>,
      imu_linear_acceleration = Some default_vector3\<rparr>"

text \<open>rclpy builds a received message anew; \<open>received a h\<close> puts its Header object \<open>h\<close> at
  address \<open>a\<close>.\<close>

definition received :: "addr \<Rightarrow> Header \<Rightarrow> state \<Rightarrow> state" where
  "received a h s = s\<lparr>heap := (heap s)(a := h)\<rparr>"

definition example_received :: state where
  "example_received =
     received 100 \<lparr>stamp = \<lparr>time_sec = 7, time_nanosec = 0\<rparr>, frame_id = ''lidar''\<rparr>
       (received 101 \<lparr>stamp = \<lparr>time_sec = 5, time_nanosec = 0\<rparr>, frame_id = ''gnss''\<rparr>
         (received 102 \<lparr>stamp = \<lparr>time_sec = 6, time_nanosec = 0\<rparr>, frame_id = ''imu''\<rparr>
            example_bridge))"

definition empty_fix :: "addr NavSatFix" where
  "empty_fix =
     \<lparr>fix_header = None, fix_latitude = None, fix_longitude = None, fix_altitude = None\<rparr>"

text \<open>The six publisher attributes, in the order \<open>cleanup\<close> lists them.\<close>

definition publishers :: "state \<Rightarrow> handle option list" where
  "publishers s =
     [lidar_pub s, gps_pub s, odom_pub s, velocity_pub s, imu_pub s, position_pub s]"

definition other_vehicle :: Vehicle where
  "other_vehicle =
     \<lparr>get_velocity = \<lparr>c_x = 0, c_y = 0, c_z = 0\<rparr>,
      get_angular_velocity = \<lparr>c_x = 0, c_y = 0, c_z = 0\<rparr>,
      get_transform =
        \<lparr>location = \<lparr>c_x = 1, c_y = 2, c_z = 3\<rparr>,
         rotation = \<lparr>rot_pitch = 0, rot_yaw = 0, rot_roll = 0\<rparr>\<rparr>\<rparr>"

text \<open>The Header objects of the sample messages, as they arrive: the LiDAR, GNSS and IMU
  messages are stamped 7, 5 and 6 seconds.\<close>

definition example_heap :: "addr \<Rightarrow> Header" where
  "example_heap =
     (\<lambda>a. default_header)
       (100 := \<lparr>stamp = \<lparr>time_sec = 7, time_nanosec = 0\<rparr>, frame_id = ''lidar''\<rparr>,
        101 := \<lparr>stamp = \<lparr>time_sec = 5, time_nanosec = 0\<rparr>, frame_id = ''gnss''\<rparr>,
        102 := \<lparr>stamp = \<lparr>time_sec = 6, time_nanosec = 0\<rparr>, frame_id = ''imu''\<rparr>)"

text \<open>The addresses of the Header objects of the LiDAR messages in a sequence of callbacks.\<close>

fun lidar_headers :: "callback list \<Rightarrow> addr set" where
  "lidar_headers [] = {}"
| "lidar_headers (LidarMsg m # cs) = set_option (pc_header m) \<union> lidar_headers cs"
| "lidar_headers (c # cs) = lidar_headers cs"

definition later_cloud :: "addr PointCloud2" where
  "later_cloud = \<lparr>pc_header = Some 103, pc_data = Some [4, 5]\<rparr>"

text \<open>A vehicle whose yaw is the single-precision number nearest to \<open>10^-7\<close>.\<close>

definition small_yaw_vehicle :: Vehicle where
  "small_yaw_vehicle =
     \<lparr>get_velocity = \<lparr>c_x = 0, c_y = 0, c_z = 0\<rparr>,
      get_angular_velocity = \<lparr>c_x = 0, c_y = 0, c_z = 0\<rparr>,
      get_transform =
        \<lparr>location = \<lparr>c_x = 1, c_y = 2, c_z = 3\<rparr>,
         rotation = \<lparr>rot_pitch = 0, rot_yaw = 14073749 / 2 ^ 47, rot_roll = 0\<rparr>\<rparr>\<rparr>"

section \<open>Properties\<close>

subsection \<open>A cycle, a callback, a run\<close>

lemmas cycle_defs = publish_vehicle_data_def update_vehicle_state_info_def get_lidar_data_def
  get_gps_data_def get_odom_data_def get_velocity_data_def get_imu_data_def
  get_position_data_def publish_def log_def

lemmas wire_defs = wire_gps_def wire_odom_def wire_odometry_def wire_velocity_def
  wire_position_def

lemma publish_vehicle_data_ok:
  assumes "fix_header (carla_gnss_data s) = Some g"
    and "imu_angular_velocity (carla_imu_data s) = Some w"
    and "lidar_pub s = Some p1" and "gps_pub s = Some p2" and "odom_pub s = Some p3"
    and "velocity_pub s = Some p4" and "imu_pub s = Some p5" and "position_pub s = Some p6"
  shows "\<exists>s'. publish_vehicle_data vehicle conv s = (None, s') \<and>
     trace s' = trace s @
       [Publish p1 (WPointCloud2 (wire_cloud (heap s) (carla_lidar_data s))),
        Publish p2 (WGpswithHeading
          \<lparr>gps_header = heap s g, gps_gps = wire_fix (heap s) (carla_gnss_data s),
           gps_roll = rot_roll (rotation (get_transform vehicle)),
           gps_pitch = rot_pitch (rotation (get_transform vehicle)),
           gps_heading = float_sub (rot_yaw (rotation (get_transform vehicle))) 90\<rparr>),
        Publish p3 (WOdometrywithGps
          \<lparr>og_header = heap s (header s), og_gps = wire_fix (heap s) (carla_gnss_data s),
           og_odometry =
             \<lparr>odo_header = heap s (header s),
              odo_pose_pose = carla_location_to_ros_vector3 conv (location (get_transform vehicle)),
              odo_twist_twist = carla_velocity_to_ros_twist conv (get_velocity vehicle)
                 (get_angular_velocity vehicle)\<rparr>\<rparr>),
        Publish p4 (WInsVelocity
          \<lparr>vel_header = heap s (header s),
           vel_angular_velocity = tw_angular (carla_velocity_to_ros_twist conv
              (get_velocity vehicle) (get_angular_velocity vehicle)),
           vel_linear_velocity = tw_linear (carla_velocity_to_ros_twist conv
              (get_velocity vehicle) (get_angular_velocity vehicle))\<rparr>),
        Publish p5 (WImu (wire_imu (heap s) (carla_imu_data s))),
        Publish p6 (WVector3Stamped
          \<lparr>pos_header = heap s (header s),
           pos_vector = carla_location_to_ros_vector3 conv (location (get_transform vehicle))\<rparr>),
        Log DEBUG ''Data published''] \<and>
     trace s' = trace s @
       [Publish p1 (WPointCloud2 (wire_cloud (heap s') (lidar_data s'))),
        Publish p2 (WGpswithHeading (wire_gps (heap s') (gps_data s'))),
        Publish p3 (WOdometrywithGps (wire_odom (heap s') (odometries s') (odom_data s'))),
        Publish p4 (WInsVelocity (wire_velocity (heap s') (velocity_data s'))),
        Publish p5 (WImu (wire_imu (heap s') (imu_data s'))),
        Publish p6 (WVector3Stamped (wire_position (heap s') (position_data s'))),
        Log DEBUG ''Data published''] \<and>
     heap s' = heap s \<and> header s' = header s \<and>
     carla_lidar_data s' = carla_lidar_data s \<and> carla_gnss_data s' = carla_gnss_data s \<and>
     carla_imu_data s' = carla_imu_data s \<and>
     lidar_pub s' = lidar_pub s \<and> gps_pub s' = gps_pub s \<and> odom_pub s' = odom_pub s \<and>
     velocity_pub s' = velocity_pub s \<and> imu_pub s' = imu_pub s \<and>
     position_pub s' = position_pub s \<and> timer s' = timer s"
  using assms
  by (simp add: cycle_defs Let_def wire_defs)

lemma publish_vehicle_data_frame:
  "publish_vehicle_data vehicle conv s = (r, s') \<Longrightarrow>
     heap s' = heap s \<and> header s' = header s \<and>
     carla_lidar_data s' = carla_lidar_data s \<and> carla_gnss_data s' = carla_gnss_data s \<and>
     carla_imu_data s' = carla_imu_data s \<and>
     lidar_pub s' = lidar_pub s \<and> gps_pub s' = gps_pub s \<and> odom_pub s' = odom_pub s \<and>
     velocity_pub s' = velocity_pub s \<and> imu_pub s' = imu_pub s \<and>
     position_pub s' = position_pub s \<and> timer s' = timer s"
  by (auto simp add: cycle_defs Let_def split: option.splits)

lemma stmts_append:
  "stmts (fs @ gs) s =
     (case stmts fs s of (None, s') \<Rightarrow> stmts gs s' | (Some e, s') \<Rightarrow> (Some e, s'))"
  by (induction fs arbitrary: s) (auto split: prod.splits option.splits)

lemma spin_append:
  "spin conv (cs @ ds) s =
     (case spin conv cs s of (None, s') \<Rightarrow> spin conv ds s' | (Some e, s') \<Rightarrow> (Some e, s'))"
  unfolding spin_def by (simp add: stmts_append)

lemma spin_Nil: "spin conv [] s = (None, s)"
  by (simp add: spin_def)

lemma spin_Cons:
  "spin conv (c # cs) s =
     (case dispatch conv c s of (None, s') \<Rightarrow> spin conv cs s' | (Some e, s') \<Rightarrow> (Some e, s'))"
  unfolding spin_def by simp


lemma emitted_append: "trace s' = trace s @ es \<Longrightarrow> emitted s s' = es"
  by (simp add: emitted_def)

lemma published_append: "published (xs @ ys) = published xs @ published ys"
  by (induction xs rule: published.induct) simp_all

lemmas handler_defs = update_carla_lidar_data_def update_carla_gnss_data_def
  update_carla_imu_data_def

lemma update_carla_lidar_data_ok:
  assumes "pc_header m = Some a"
  shows "\<exists>s'. update_carla_lidar_data m s = (None, s') \<and>
     carla_lidar_data s' = m \<and> carla_gnss_data s' = carla_gnss_data s \<and>
     carla_imu_data s' = carla_imu_data s \<and> header s' = a \<and>
     heap s' = (heap s)(a := (heap s a)\<lparr>frame_id := ''odom''\<rparr>) \<and>
     trace s' = trace s @ [Log DEBUG ''Received lidar data''] \<and>
     lidar_pub s' = lidar_pub s \<and> gps_pub s' = gps_pub s \<and> odom_pub s' = odom_pub s \<and>
     velocity_pub s' = velocity_pub s \<and> imu_pub s' = imu_pub s \<and>
     position_pub s' = position_pub s \<and> timer s' = timer s"
  using assms by (simp add: update_carla_lidar_data_def)

lemma update_carla_gnss_data_ok:
  "\<exists>s'. update_carla_gnss_data m s = (None, s') \<and>
     carla_lidar_data s' = carla_lidar_data s \<and> carla_gnss_data s' = m \<and>
     carla_imu_data s' = carla_imu_data s \<and> header s' = header s \<and> heap s' = heap s \<and>
     trace s' = trace s @ [Log DEBUG ''Received gnss data''] \<and>
     lidar_pub s' = lidar_pub s \<and> gps_pub s' = gps_pub s \<and> odom_pub s' = odom_pub s \<and>
     velocity_pub s' = velocity_pub s \<and> imu_pub s' = imu_pub s \<and>
     position_pub s' = position_pub s \<and> timer s' = timer s"
  by (simp add: update_carla_gnss_data_def)

lemma update_carla_imu_data_ok:
  "\<exists>s'. update_carla_imu_data m s = (None, s') \<and>
     carla_lidar_data s' = carla_lidar_data s \<and> carla_gnss_data s' = carla_gnss_data s \<and>
     carla_imu_data s' = m \<and> header s' = header s \<and> heap s' = heap s \<and>
     trace s' = trace s @ [Log DEBUG ''Received imu data''] \<and>
     lidar_pub s' = lidar_pub s \<and> gps_pub s' = gps_pub s \<and> odom_pub s' = odom_pub s \<and>
     velocity_pub s' = velocity_pub s \<and> imu_pub s' = imu_pub s \<and>
     position_pub s' = position_pub s \<and> timer s' = timer s"
  by (simp add: update_carla_imu_data_def)

lemma example_bridge_eq:
  "example_bridge = VehicleInfoPublisher
     \<lparr>trace :=
        [Created (Subscription NavSatFixT (PStr ''/carla/gnss'')),
         Created (Subscription ImuT (PStr ''/carla/imu'')),
         Created (Subscription PointCloud2T (PStr ''/carla/lidar'')),
         Created (Publisher PointCloud2T (PStr ''/lidar'')),
         Created (Publisher GpswithHeadingT (PStr ''/gps'')),
         Created (Publisher OdometrywithGpsT (PStr ''/odom'')),
         Created (Publisher InsVelocityT (PStr ''/velocity'')),
         Created (Publisher ImuT (PStr ''/imu'')),
         Created (Publisher Vector3StampedT (PStr ''/position'')),
         Created (Timer (PFloat (1 / 10)))],
      config := Some example_config,
      gnss_sub := Some (Subscription NavSatFixT (PStr ''/carla/gnss'')),
      imu_sub := Some (Subscription ImuT (PStr ''/carla/imu'')),
      lidar_sub := Some (Subscription PointCloud2T (PStr ''/carla/lidar'')),
      lidar_pub := Some (Publisher PointCloud2T (PStr ''/lidar'')),
      gps_pub := Some (Publisher GpswithHeadingT (PStr ''/gps'')),
      odom_pub := Some (Publisher OdometrywithGpsT (PStr ''/odom'')),
      velocity_pub := Some (Publisher InsVelocityT (PStr ''/velocity'')),
      imu_pub := Some (Publisher ImuT (PStr ''/imu'')),
      position_pub := Some (Publisher Vector3StampedT (PStr ''/position'')),
      timer := Some (Timer (PFloat (1 / 10)))\<rparr>"
  by (simp add: example_bridge_def init_def create_def config_get_def example_config_def
      topics_config_def VehicleInfoPublisher_def)

subsection \<open>The subscription callbacks and the message they receive\<close>

text \<open>
  Claim C4, amended. The GNSS and IMU callbacks store the message they receive and leave it as
  it arrived: the stored sample is the message, and its serialisation is the same before and
  after. The LiDAR callback stores its message too, but writes \<^verbatim>\<open>"odom"\<close> into the
  \<^verbatim>\<open>frame_id\<close> of the message's own Header object (\<^verbatim>\<open>self.header\<close> is that object); the
  stamp and the point data stay as they arrived.
\<close>

theorem handlers_keep_message:
  "carla_gnss_data (snd (update_carla_gnss_data g s)) = g \<and>
   wire_fix (heap (snd (update_carla_gnss_data g s))) g = wire_fix (heap s) g \<and>
   carla_imu_data (snd (update_carla_imu_data i s)) = i \<and>
   wire_imu (heap (snd (update_carla_imu_data i s))) i = wire_imu (heap s) i \<and>
   (pc_header l = Some a \<longrightarrow>
      carla_lidar_data (snd (update_carla_lidar_data l s)) = l \<and>
      wire_cloud (heap (snd (update_carla_lidar_data l s))) l =
        \<lparr>pc_header = Some ((heap s a)\<lparr>frame_id := ''odom''\<rparr>), pc_data = pc_data l\<rparr>)"
  by (simp add: handler_defs wire_cloud_def)

theorem handlers_keep_message_witness:
  "wire_cloud (heap (snd (update_carla_lidar_data example_cloud example_received)))
      example_cloud =
     \<lparr>pc_header = Some \<lparr>stamp = \<lparr>time_sec = 7, time_nanosec = 0\<rparr>, frame_id = ''odom''\<rparr>,
      pc_data = Some [1, 2, 3]\<rparr>"
  using handlers_keep_message [of example_fix example_received example_imu example_cloud 100]
  by (simp add: example_cloud_def example_received_def received_def)

text \<open>The claim as stated fails for the LiDAR callback: a message that arrives with
  \<^verbatim>\<open>frame_id = "lidar"\<close> is no longer equal to itself as it arrived.\<close>

theorem lidar_handler_rewrites_frame_id:
  "wire_cloud (heap example_received) example_cloud =
     \<lparr>pc_header = Some \<lparr>stamp = \<lparr>time_sec = 7, time_nanosec = 0\<rparr>, frame_id = ''lidar''\<rparr>,
      pc_data = Some [1, 2, 3]\<rparr> \<and>
   wire_cloud (heap (snd (update_carla_lidar_data example_cloud example_received)))
      example_cloud \<noteq> wire_cloud (heap example_received) example_cloud"
  by (simp add: example_cloud_def example_received_def received_def wire_cloud_def
      update_carla_lidar_data_def)

text \<open>
  Claim C9, amended. No callback validates what it receives. The GNSS and IMU callbacks store
  every sample, whatever sub-fields it lacks, in place of the one held before, log one line at
  debug level and raise nothing; the LiDAR callback does the same for every sample that has a
  header.
\<close>

theorem handlers_store_unconditionally:
  "fst (update_carla_gnss_data g s) = None \<and>
   carla_gnss_data (snd (update_carla_gnss_data g s)) = g \<and>
   emitted s (snd (update_carla_gnss_data g s)) = [Log DEBUG ''Received gnss data''] \<and>
   fst (update_carla_imu_data i s) = None \<and>
   carla_imu_data (snd (update_carla_imu_data i s)) = i \<and>
   emitted s (snd (update_carla_imu_data i s)) = [Log DEBUG ''Received imu data''] \<and>
   (pc_header l \<noteq> None \<longrightarrow>
      fst (update_carla_lidar_data l s) = None \<and>
      carla_lidar_data (snd (update_carla_lidar_data l s)) = l \<and>
      emitted s (snd (update_carla_lidar_data l s)) = [Log DEBUG ''Received lidar data''])"
  by (auto simp add: handler_defs emitted_def)

theorem handlers_store_unconditionally_witness:
  "fst (update_carla_lidar_data \<lparr>pc_header = Some 100, pc_data = None\<rparr> example_bridge) = None \<and>
   carla_lidar_data
     (snd (update_carla_lidar_data \<lparr>pc_header = Some 100, pc_data = None\<rparr> example_bridge)) =
     \<lparr>pc_header = Some 100, pc_data = None\<rparr>"
  using handlers_store_unconditionally
    [of example_fix example_bridge example_imu "\<lparr>pc_header = Some 100, pc_data = None\<rparr>"]
  by simp

text \<open>The claim as stated fails: a GNSS sample with no sub-field at all replaces the stored
  sample, and the only line logged is at debug level.\<close>

theorem malformed_sample_is_stored:
  "carla_gnss_data example_bridge = default_fix 2 \<and>
   fst (update_carla_gnss_data empty_fix example_bridge) = None \<and>
   carla_gnss_data (snd (update_carla_gnss_data empty_fix example_bridge)) = empty_fix \<and>
   empty_fix \<noteq> default_fix 2 \<and>
   emitted example_bridge (snd (update_carla_gnss_data empty_fix example_bridge)) =
     [Log DEBUG ''Received gnss data'']"
  by (simp add: example_bridge_eq VehicleInfoPublisher_def update_carla_gnss_data_def
      emitted_def empty_fix_def default_fix_def)

subsection \<open>The headers of the six outputs\<close>

lemma dispatch_publishers:
  "dispatch conv c s = (r, s') \<Longrightarrow> publishers s' = publishers s"
proof (cases c)
  case (TimerTick v)
  assume "dispatch conv c s = (r, s')"
  with TimerTick have "publish_vehicle_data v conv s = (r, s')" by simp
  from publish_vehicle_data_frame [OF this] show ?thesis by (simp add: publishers_def)
qed (auto simp add: handler_defs publishers_def split: option.splits)

lemma dispatch_lidar_header:
  assumes "map_option (heap s) (pc_header (carla_lidar_data s)) = Some (heap s (header s))"
    and "dispatch conv c s = (r, s')"
  shows "map_option (heap s') (pc_header (carla_lidar_data s')) = Some (heap s' (header s'))"
proof (cases c)
  case (TimerTick v)
  with assms(2) have "publish_vehicle_data v conv s = (r, s')" by simp
  from publish_vehicle_data_frame [OF this] assms(1) show ?thesis by simp
qed (use assms in \<open>auto simp add: handler_defs split: option.splits\<close>)

lemma spin_invariants:
  assumes "spin conv cs s = (r, s')"
    and "map_option (heap s) (pc_header (carla_lidar_data s)) = Some (heap s (header s))"
  shows "publishers s' = publishers s \<and>
     map_option (heap s') (pc_header (carla_lidar_data s')) = Some (heap s' (header s'))"
  using assms
proof (induction cs arbitrary: s)
  case Nil
  then show ?case by (simp add: spin_Nil)
next
  case (Cons c cs)
  obtain r1 s1 where d: "dispatch conv c s = (r1, s1)" by (cases "dispatch conv c s")
  note p = dispatch_publishers [OF d] and h = dispatch_lidar_header [OF Cons.prems(2) d]
  show ?case
  proof (cases r1)
    case None
    with Cons.prems(1) d have "spin conv cs s1 = (r, s')" by (simp add: spin_Cons)
    from Cons.IH [OF this h] p show ?thesis by simp
  next
    case (Some e)
    with Cons.prems(1) d have "s' = s1" by (simp add: spin_Cons)
    with p h show ?thesis by simp
  qed
qed

lemma init_ok:
  assumes "init accepts cfg s = (None, s')"
  shows "heap s' = heap s \<and> header s' = header s \<and>
     carla_lidar_data s' = carla_lidar_data s \<and> carla_gnss_data s' = carla_gnss_data s \<and>
     carla_imu_data s' = carla_imu_data s \<and>
     publishers s' =
       [Some (Publisher PointCloud2T (config_get cfg ''lidar_pub_topic'')),
        Some (Publisher GpswithHeadingT (config_get cfg ''gps_pub_topic'')),
        Some (Publisher OdometrywithGpsT (config_get cfg ''odom_pub_topic'')),
        Some (Publisher InsVelocityT (config_get cfg ''velocity_pub_topic'')),
        Some (Publisher ImuT (config_get cfg ''imu_pub_topic'')),
        Some (Publisher Vector3StampedT (config_get cfg ''position_pub_topic''))]"
  using assms
  by (auto simp add: init_def create_def publishers_def split: if_splits)

lemma cycle_headers:
  assumes "fix_header (carla_gnss_data s) = Some g"
    and "imu_angular_velocity (carla_imu_data s) = Some w"
    and "publishers s = [Some p1, Some p2, Some p3, Some p4, Some p5, Some p6]"
  shows "\<exists>s'. publish_vehicle_data vehicle conv s = (None, s') \<and>
     map wire_header (published (emitted s s')) =
       [map_option (heap s) (pc_header (carla_lidar_data s)), Some (heap s g),
        Some (heap s (header s)), Some (heap s (header s)),
        map_option (heap s) (imu_header (carla_imu_data s)), Some (heap s (header s))]"
  using assms
  by (simp add: cycle_defs Let_def wire_defs emitted_def publishers_def wire_cloud_def
      wire_imu_def)

text \<open>
  Claim C2, amended. Take a bridge constructed over any heap \<open>hp\<close> (it holds the Header
  objects of the messages that will arrive; the defaults of the class body are at the
  addresses below 14), let it run any callbacks, and then a publish cycle with a stored GNSS
  sample that has a header and a stored IMU sample that has an angular velocity. The cycle
  completes, and of the six messages published, in order, the PointCloud, the Odometry, the
  Velocity and the Position carry the shared header \<^verbatim>\<open>self.header\<close>, the GPS message carries
  the header of the stored GNSS sample, and the IMU message the header of the stored IMU
  sample (if it has one).
\<close>

theorem outputs_headers:
  assumes "\<forall>a<14. hp a = default_header"
    and "init accepts cfg (VehicleInfoPublisher\<lparr>heap := hp\<rparr>) = (None, s0)"
    and "spin conv cs s0 = (None, s)"
    and "fix_header (carla_gnss_data s) = Some g"
    and "imu_angular_velocity (carla_imu_data s) = Some w"
  shows "\<exists>s'. publish_vehicle_data vehicle conv s = (None, s') \<and>
     map wire_header (published (emitted s s')) =
       [Some (heap s (header s)), Some (heap s g),
        Some (heap s (header s)), Some (heap s (header s)),
        map_option (heap s) (imu_header (carla_imu_data s)), Some (heap s (header s))]"
proof -
  note i = init_ok [OF assms(2)]
  have "map_option (heap s0) (pc_header (carla_lidar_data s0)) = Some (heap s0 (header s0))"
    using i assms(1) by (simp add: VehicleInfoPublisher_def default_cloud_def)
  from spin_invariants [OF assms(3) this] i
  have p: "publishers s =
       [Some (Publisher PointCloud2T (config_get cfg ''lidar_pub_topic'')),
        Some (Publisher GpswithHeadingT (config_get cfg ''gps_pub_topic'')),
        Some (Publisher OdometrywithGpsT (config_get cfg ''odom_pub_topic'')),
        Some (Publisher InsVelocityT (config_get cfg ''velocity_pub_topic'')),
        Some (Publisher ImuT (config_get cfg ''imu_pub_topic'')),
        Some (Publisher Vector3StampedT (config_get cfg ''position_pub_topic''))]"
    and h: "map_option (heap s) (pc_header (carla_lidar_data s)) = Some (heap s (header s))"
    by simp_all
  from cycle_headers [OF assms(4,5) p, of vehicle conv] h show ?thesis by simp
qed

lemma example_received_eq:
  "example_received = example_bridge\<lparr>heap := example_heap\<rparr>"
  by (simp add: example_received_def received_def example_bridge_eq VehicleInfoPublisher_def
      example_heap_def fun_upd_twist)

lemma init_example:
  "init rclpy_accepts example_config (VehicleInfoPublisher\<lparr>heap := example_heap\<rparr>) =
     (None, example_received)"
  by (simp add: example_received_eq example_bridge_eq init_def create_def config_get_def
      example_config_def topics_config_def VehicleInfoPublisher_def)

lemma example_run:
  "\<exists>s. spin carla_data_to_ros_spec
      [LidarMsg example_cloud, GnssMsg example_fix, ImuMsg example_imu] example_received =
        (None, s) \<and>
     heap s = example_heap
       (100 := \<lparr>stamp = \<lparr>time_sec = 7, time_nanosec = 0\<rparr>, frame_id = ''odom''\<rparr>) \<and>
     header s = 100 \<and> carla_lidar_data s = example_cloud \<and>
     carla_gnss_data s = example_fix \<and> carla_imu_data s = example_imu \<and>
     publishers s = publishers example_bridge"
  by (simp add: spin_def handler_defs example_received_eq example_cloud_def publishers_def
      example_heap_def)

theorem outputs_headers_witness:
  "\<exists>s s'. spin carla_data_to_ros_spec
      [LidarMsg example_cloud, GnssMsg example_fix, ImuMsg example_imu] example_received =
        (None, s) \<and>
     publish_vehicle_data example_vehicle carla_data_to_ros_spec s = (None, s') \<and>
     map wire_header (published (emitted s s')) =
       [Some \<lparr>stamp = \<lparr>time_sec = 7, time_nanosec = 0\<rparr>, frame_id = ''odom''\<rparr>,
        Some \<lparr>stamp = \<lparr>time_sec = 5, time_nanosec = 0\<rparr>, frame_id = ''gnss''\<rparr>,
        Some \<lparr>stamp = \<lparr>time_sec = 7, time_nanosec = 0\<rparr>, frame_id = ''odom''\<rparr>,
        Some \<lparr>stamp = \<lparr>time_sec = 7, time_nanosec = 0\<rparr>, frame_id = ''odom''\<rparr>,
        Some \<lparr>stamp = \<lparr>time_sec = 6, time_nanosec = 0\<rparr>, frame_id = ''imu''\<rparr>,
        Some \<lparr>stamp = \<lparr>time_sec = 7, time_nanosec = 0\<rparr>, frame_id = ''odom''\<rparr>]"
proof -
  from example_run obtain s where run: "spin carla_data_to_ros_spec
      [LidarMsg example_cloud, GnssMsg example_fix, ImuMsg example_imu] example_received =
        (None, s)"
    and s: "heap s = example_heap
       (100 := \<lparr>stamp = \<lparr>time_sec = 7, time_nanosec = 0\<rparr>, frame_id = ''odom''\<rparr>)"
      "header s = 100" "carla_gnss_data s = example_fix" "carla_imu_data s = example_imu"
    by blast
  have hp: "\<forall>a<14. example_heap a = default_header"
    by (simp add: example_heap_def)
  have g: "fix_header (carla_gnss_data s) = Some 101"
    and w: "imu_angular_velocity (carla_imu_data s) = Some \<lparr>v3_x = 0, v3_y = 0, v3_z = 1\<rparr>"
    using s by (simp_all add: example_fix_def example_imu_def)
  from outputs_headers [OF hp init_example run g w, of example_vehicle] run s
  show ?thesis
    by (simp add: example_heap_def example_imu_def)
qed

text \<open>The claim as stated fails: with a LiDAR message stamped 7, a GNSS message stamped 5 and
  an IMU message stamped 6, the six outputs of the next cycle are stamped 7, 5, 7, 7, 6, 7.\<close>

theorem gps_and_imu_keep_their_own_header:
  "map (map_option stamp \<circ> wire_header)
     (published (emitted example_received (snd (spin carla_data_to_ros_spec
        [LidarMsg example_cloud, GnssMsg example_fix, ImuMsg example_imu,
         TimerTick example_vehicle] example_received)))) =
     [Some \<lparr>time_sec = 7, time_nanosec = 0\<rparr>, Some \<lparr>time_sec = 5, time_nanosec = 0\<rparr>,
      Some \<lparr>time_sec = 7, time_nanosec = 0\<rparr>, Some \<lparr>time_sec = 7, time_nanosec = 0\<rparr>,
      Some \<lparr>time_sec = 6, time_nanosec = 0\<rparr>, Some \<lparr>time_sec = 7, time_nanosec = 0\<rparr>]"
  by (simp add: spin_def handler_defs cycle_defs Let_def wire_defs wire_cloud_def wire_imu_def
      wire_fix_def emitted_def example_received_eq example_bridge_eq VehicleInfoPublisher_def
      example_cloud_def example_fix_def example_imu_def example_heap_def)

subsection \<open>Velocity\<close>

text \<open>
  Claim C5. In a publish cycle (stored GNSS sample with a header, stored IMU sample with an
  angular velocity, the six publishers in place) the Velocity message carries the angular
  velocity and the linear velocity polled from the vehicle. Of the two assignments to
  \<^verbatim>\<open>angular_velocity\<close> in \<open>get_velocity_data\<close> the second wins, so the angular velocity \<open>w\<close>
  of the stored IMU sample does not appear. The two values reach the message through
  \<^verbatim>\<open>carla_velocity_to_ros_twist\<close>, taken here as the direct copy the specification describes.
\<close>

theorem velocity_from_kinematics:
  assumes "fix_header (carla_gnss_data s) = Some g"
    and "imu_angular_velocity (carla_imu_data s) = Some w"
    and "lidar_pub s = Some p1" and "gps_pub s = Some p2" and "odom_pub s = Some p3"
    and "velocity_pub s = Some p4" and "imu_pub s = Some p5" and "position_pub s = Some p6"
  shows "\<exists>s'. publish_vehicle_data vehicle carla_data_to_ros_spec s = (None, s') \<and>
     published (emitted s s') ! 3 = WInsVelocity
       \<lparr>vel_header = heap s (header s),
        vel_angular_velocity = direct_copy (get_angular_velocity vehicle),
        vel_linear_velocity = direct_copy (get_velocity vehicle)\<rparr> \<and>
     vel_angular_velocity (velocity_data s') = direct_copy (get_angular_velocity vehicle) \<and>
     vel_linear_velocity (velocity_data s') = direct_copy (get_velocity vehicle)"
  using assms
  by (simp add: cycle_defs Let_def wire_defs emitted_def carla_data_to_ros_spec_def)

theorem velocity_from_kinematics_witness:
  "\<exists>s'. publish_vehicle_data example_vehicle carla_data_to_ros_spec
       (snd (update_carla_imu_data example_imu example_bridge)) = (None, s') \<and>
     imu_angular_velocity (carla_imu_data s') = Some \<lparr>v3_x = 0, v3_y = 0, v3_z = 1\<rparr> \<and>
     vel_angular_velocity (velocity_data s') = \<lparr>v3_x = 0, v3_y = 0, v3_z = 1 / 2\<rparr> \<and>
     vel_linear_velocity (velocity_data s') = \<lparr>v3_x = 1, v3_y = 0, v3_z = 0\<rparr>"
proof -
  let ?s = "snd (update_carla_imu_data example_imu example_bridge)"
  have pre: "fix_header (carla_gnss_data ?s) = Some 2"
    "imu_angular_velocity (carla_imu_data ?s) = Some \<lparr>v3_x = 0, v3_y = 0, v3_z = 1\<rparr>"
    "lidar_pub ?s = Some (Publisher PointCloud2T (PStr ''/lidar''))"
    "gps_pub ?s = Some (Publisher GpswithHeadingT (PStr ''/gps''))"
    "odom_pub ?s = Some (Publisher OdometrywithGpsT (PStr ''/odom''))"
    "velocity_pub ?s = Some (Publisher InsVelocityT (PStr ''/velocity''))"
    "imu_pub ?s = Some (Publisher ImuT (PStr ''/imu''))"
    "position_pub ?s = Some (Publisher Vector3StampedT (PStr ''/position''))"
    by (simp_all add: example_bridge_eq VehicleInfoPublisher_def update_carla_imu_data_def
        default_fix_def example_imu_def)
  from velocity_from_kinematics [OF pre, of example_vehicle]
  obtain s' where ok: "publish_vehicle_data example_vehicle carla_data_to_ros_spec ?s = (None, s')"
    and v: "vel_angular_velocity (velocity_data s') =
        direct_copy (get_angular_velocity example_vehicle)"
      "vel_linear_velocity (velocity_data s') = direct_copy (get_velocity example_vehicle)"
    by blast
  from publish_vehicle_data_frame [OF ok] pre(2)
  have "imu_angular_velocity (carla_imu_data s') = Some \<lparr>v3_x = 0, v3_y = 0, v3_z = 1\<rparr>"
    by simp
  with ok v show ?thesis
    by (simp add: direct_copy_def example_vehicle_def)
qed

subsection \<open>What a cycle's outputs depend on\<close>





subsection \<open>Cleanup\<close>

text \<open>
  Claim C10, amended. On a bridge whose six publishers exist, with or without a timer,
  \<open>cleanup\<close> raises nothing: it cancels the timer if the attribute exists and destroys the
  six publishers in order. It keeps no record of having run, so a second call succeeds as
  well and repeats the same release calls on the same endpoints. The subscriptions are not
  released by \<open>cleanup\<close>.
\<close>

theorem cleanup_repeats:
  assumes "publishers s = [Some p1, Some p2, Some p3, Some p4, Some p5, Some p6]"
  shows "\<exists>s' s''. cleanup s = (None, s') \<and> cleanup s' = (None, s'') \<and>
     emitted s s' =
       (case timer s of Some t \<Rightarrow> [Cancelled t] | None \<Rightarrow> []) @
       [Destroyed p1, Destroyed p2, Destroyed p3, Destroyed p4, Destroyed p5, Destroyed p6] \<and>
     emitted s' s'' = emitted s s'"
  using assms
  by (simp add: cleanup_def destroy_def publishers_def emitted_def split: option.split)

theorem cleanup_repeats_witness:
  "\<exists>s' s''. cleanup example_bridge = (None, s') \<and> cleanup s' = (None, s'') \<and>
     emitted example_bridge s' =
       [Cancelled (Timer (PFloat (1 / 10))),
        Destroyed (Publisher PointCloud2T (PStr ''/lidar'')),
        Destroyed (Publisher GpswithHeadingT (PStr ''/gps'')),
        Destroyed (Publisher OdometrywithGpsT (PStr ''/odom'')),
        Destroyed (Publisher InsVelocityT (PStr ''/velocity'')),
        Destroyed (Publisher ImuT (PStr ''/imu'')),
        Destroyed (Publisher Vector3StampedT (PStr ''/position''))] \<and>
     emitted s' s'' = emitted example_bridge s'"
  using cleanup_repeats [of example_bridge "Publisher PointCloud2T (PStr ''/lidar'')"
     "Publisher GpswithHeadingT (PStr ''/gps'')" "Publisher OdometrywithGpsT (PStr ''/odom'')"
     "Publisher InsVelocityT (PStr ''/velocity'')" "Publisher ImuT (PStr ''/imu'')"
     "Publisher Vector3StampedT (PStr ''/position'')"]
  by (simp add: example_bridge_eq publishers_def)

text \<open>The claim as stated fails: two calls in a row cancel the timer twice and destroy each
  publisher twice.\<close>

theorem cleanup_twice_releases_twice:
  "emitted example_bridge (snd (cleanup (snd (cleanup example_bridge)))) =
     [Cancelled (Timer (PFloat (1 / 10))),
      Destroyed (Publisher PointCloud2T (PStr ''/lidar'')),
      Destroyed (Publisher GpswithHeadingT (PStr ''/gps'')),
      Destroyed (Publisher OdometrywithGpsT (PStr ''/odom'')),
      Destroyed (Publisher InsVelocityT (PStr ''/velocity'')),
      Destroyed (Publisher ImuT (PStr ''/imu'')),
      Destroyed (Publisher Vector3StampedT (PStr ''/position'')),
      Cancelled (Timer (PFloat (1 / 10))),
      Destroyed (Publisher PointCloud2T (PStr ''/lidar'')),
      Destroyed (Publisher GpswithHeadingT (PStr ''/gps'')),
      Destroyed (Publisher OdometrywithGpsT (PStr ''/odom'')),
      Destroyed (Publisher InsVelocityT (PStr ''/velocity'')),
      Destroyed (Publisher ImuT (PStr ''/imu'')),
      Destroyed (Publisher Vector3StampedT (PStr ''/position''))]"
  by (simp add: cleanup_def destroy_def emitted_def example_bridge_eq VehicleInfoPublisher_def)

text \<open>Only the timer is guarded by \<^verbatim>\<open>hasattr\<close>. When construction stops before a publisher
  was created, \<open>cleanup\<close> raises \<^verbatim>\<open>AttributeError\<close> on that publisher.\<close>

lemma cleanup_partially_constructed:
  "fst (init rclpy_accepts (example_config(''gps_pub_topic'' := None)) VehicleInfoPublisher) =
     Some (RclpyError (Publisher GpswithHeadingT PNone)) \<and>
   fst (cleanup (snd (init rclpy_accepts (example_config(''gps_pub_topic'' := None))
      VehicleInfoPublisher))) = Some (AttributeError ''gps_pub'')"
  by (simp add: cleanup_def init_def create_def config_get_def example_config_def
      topics_config_def VehicleInfoPublisher_def)

subsection \<open>Configuration and construction\<close>

lemma check_topics_fold:
  "fold (check_topic cfg) ks (flag, lg) =
     (flag \<and> (\<forall>k\<in>set ks. truthy (config_get cfg k)),
      lg @ map (\<lambda>k. Log ERROR (''Missing configuration of '' @ k))
             (filter (\<lambda>k. \<not> truthy (config_get cfg k)) ks))"
  by (induction ks arbitrary: flag lg) (auto simp add: check_topic_def)

text \<open>
  Claim C1, amended. \<open>check_config\<close> returns \<open>True\<close> exactly when each of the ten required keys
  has a value that Python takes as true (so a key that is absent, \<^verbatim>\<open>None\<close>, zero or an empty
  string fails, and a negative number passes), and logs one error line for each key that
  fails; it raises nothing. The constructor does not call it and checks nothing itself: it
  succeeds exactly when rclpy creates each of the ten endpoints from what \<^verbatim>\<open>config.get\<close>
  returns, and the first thing it does is to create the GNSS subscription.
\<close>

theorem check_config_and_init:
  "fst (check_config cfg) = (\<forall>k\<in>set required_topics. truthy (config_get cfg k)) \<and>
   snd (check_config cfg) =
     map (\<lambda>k. Log ERROR (''Missing configuration of '' @ k))
       (filter (\<lambda>k. \<not> truthy (config_get cfg k)) required_topics) \<and>
   (fst (init accepts cfg s) = None \<longleftrightarrow>
      accepts (Subscription NavSatFixT (config_get cfg ''gnss_sub_topic'')) \<and>
      accepts (Subscription ImuT (config_get cfg ''imu_sub_topic'')) \<and>
      accepts (Subscription PointCloud2T (config_get cfg ''lidar_sub_topic'')) \<and>
      accepts (Publisher PointCloud2T (config_get cfg ''lidar_pub_topic'')) \<and>
      accepts (Publisher GpswithHeadingT (config_get cfg ''gps_pub_topic'')) \<and>
      accepts (Publisher OdometrywithGpsT (config_get cfg ''odom_pub_topic'')) \<and>
      accepts (Publisher InsVelocityT (config_get cfg ''velocity_pub_topic'')) \<and>
      accepts (Publisher ImuT (config_get cfg ''imu_pub_topic'')) \<and>
      accepts (Publisher Vector3StampedT (config_get cfg ''position_pub_topic'')) \<and>
      accepts (Timer (config_get cfg ''loop_rate''))) \<and>
   (accepts (Subscription NavSatFixT (config_get cfg ''gnss_sub_topic'')) \<longrightarrow>
      hd (emitted s (snd (init accepts cfg s))) =
        Created (Subscription NavSatFixT (config_get cfg ''gnss_sub_topic'')))"
proof (intro conjI)
  show "fst (check_config cfg) = (\<forall>k\<in>set required_topics. truthy (config_get cfg k))"
    by (simp add: check_config_def check_topics_fold)
  show "snd (check_config cfg) =
     map (\<lambda>k. Log ERROR (''Missing configuration of '' @ k))
       (filter (\<lambda>k. \<not> truthy (config_get cfg k)) required_topics)"
    by (simp add: check_config_def check_topics_fold)
  show "fst (init accepts cfg s) = None \<longleftrightarrow>
      accepts (Subscription NavSatFixT (config_get cfg ''gnss_sub_topic'')) \<and>
      accepts (Subscription ImuT (config_get cfg ''imu_sub_topic'')) \<and>
      accepts (Subscription PointCloud2T (config_get cfg ''lidar_sub_topic'')) \<and>
      accepts (Publisher PointCloud2T (config_get cfg ''lidar_pub_topic'')) \<and>
      accepts (Publisher GpswithHeadingT (config_get cfg ''gps_pub_topic'')) \<and>
      accepts (Publisher OdometrywithGpsT (config_get cfg ''odom_pub_topic'')) \<and>
      accepts (Publisher InsVelocityT (config_get cfg ''velocity_pub_topic'')) \<and>
      accepts (Publisher ImuT (config_get cfg ''imu_pub_topic'')) \<and>
      accepts (Publisher Vector3StampedT (config_get cfg ''position_pub_topic'')) \<and>
      accepts (Timer (config_get cfg ''loop_rate''))"
    by (simp add: init_def create_def)
  show "accepts (Subscription NavSatFixT (config_get cfg ''gnss_sub_topic'')) \<longrightarrow>
      hd (emitted s (snd (init accepts cfg s))) =
        Created (Subscription NavSatFixT (config_get cfg ''gnss_sub_topic''))"
    by (simp add: init_def create_def emitted_def)
qed

theorem check_config_and_init_witness:
  "fst (check_config example_config) \<and>
   fst (init rclpy_accepts example_config VehicleInfoPublisher) = None \<and>
   hd (emitted VehicleInfoPublisher
         (snd (init rclpy_accepts example_config VehicleInfoPublisher))) =
     Created (Subscription NavSatFixT (PStr ''/carla/gnss''))"
  using check_config_and_init [of example_config rclpy_accepts VehicleInfoPublisher]
  by (simp add: required_topics_def config_get_def example_config_def topics_config_def)

text \<open>The claim as stated fails: with \<^verbatim>\<open>loop_rate\<close> absent, construction creates the three
  subscriptions (and the six publishers) before rclpy refuses the timer, and the error is
  rclpy's; and a negative \<^verbatim>\<open>loop_rate\<close> passes \<open>check_config\<close>.\<close>

theorem construction_subscribes_before_failing:
  "fst (check_config topics_config) = False \<and>
   fst (init rclpy_accepts topics_config VehicleInfoPublisher) =
     Some (RclpyError (Timer PNone)) \<and>
   take 3 (trace (snd (init rclpy_accepts topics_config VehicleInfoPublisher))) =
     [Created (Subscription NavSatFixT (PStr ''/carla/gnss'')),
      Created (Subscription ImuT (PStr ''/carla/imu'')),
      Created (Subscription PointCloud2T (PStr ''/carla/lidar''))] \<and>
   fst (check_config (topics_config(''loop_rate'' \<mapsto> PFloat (- 1)))) = True"
  by (simp add: check_config_def check_topic_def required_topics_def init_def create_def
      config_get_def topics_config_def VehicleInfoPublisher_def)

subsection \<open>Last write wins\<close>

lemma spin_writes:
  assumes "\<forall>c\<in>set cs. is_write c \<and> has_header c"
  shows "\<exists>s' es. spin conv cs s = (None, s') \<and>
     carla_lidar_data s' = most_recent_lidar cs (carla_lidar_data s) \<and>
     carla_gnss_data s' = most_recent_gnss cs (carla_gnss_data s) \<and>
     carla_imu_data s' = most_recent_imu cs (carla_imu_data s) \<and>
     heap s' = (\<lambda>a. if a \<in> lidar_headers cs then (heap s a)\<lparr>frame_id := ''odom''\<rparr>
                     else heap s a) \<and>
     publishers s' = publishers s \<and> trace s' = trace s @ es \<and> published es = []"
  using assms
proof (induction cs arbitrary: s)
  case Nil
  then show ?case by (simp add: spin_Nil)
next
  case (Cons c cs)
  then have rest: "\<forall>c\<in>set cs. is_write c \<and> has_header c" by simp
  show ?case
  proof (cases c)
    case (LidarMsg m)
    with Cons.prems obtain b where b: "pc_header m = Some b" by auto
    from update_carla_lidar_data_ok [OF b, of s] obtain s1 where s1:
      "update_carla_lidar_data m s = (None, s1)" "carla_lidar_data s1 = m"
      "carla_gnss_data s1 = carla_gnss_data s" "carla_imu_data s1 = carla_imu_data s"
      "heap s1 = (heap s)(b := (heap s b)\<lparr>frame_id := ''odom''\<rparr>)"
      "trace s1 = trace s @ [Log DEBUG ''Received lidar data'']"
      "publishers s1 = publishers s"
      by (auto simp add: publishers_def)
    from Cons.IH [OF rest, of s1] obtain s' es where s':
      "spin conv cs s1 = (None, s')"
      "carla_lidar_data s' = most_recent_lidar cs (carla_lidar_data s1)"
      "carla_gnss_data s' = most_recent_gnss cs (carla_gnss_data s1)"
      "carla_imu_data s' = most_recent_imu cs (carla_imu_data s1)"
      "heap s' = (\<lambda>a. if a \<in> lidar_headers cs then (heap s1 a)\<lparr>frame_id := ''odom''\<rparr>
                      else heap s1 a)"
      "publishers s' = publishers s1" "trace s' = trace s1 @ es" "published es = []"
      by blast
    have "heap s' = (\<lambda>a. if a \<in> lidar_headers (c # cs)
        then (heap s a)\<lparr>frame_id := ''odom''\<rparr> else heap s a)"
      using s'(5) s1(5) b by (auto simp add: LidarMsg fun_eq_iff)
    with s1 s' show ?thesis
      by (simp add: spin_Cons LidarMsg)
  next
    case (GnssMsg m)
    from update_carla_gnss_data_ok [of m s] obtain s1 where s1:
      "update_carla_gnss_data m s = (None, s1)" "carla_lidar_data s1 = carla_lidar_data s"
      "carla_gnss_data s1 = m" "carla_imu_data s1 = carla_imu_data s"
      "heap s1 = heap s" "trace s1 = trace s @ [Log DEBUG ''Received gnss data'']"
      "publishers s1 = publishers s"
      by (auto simp add: publishers_def)
    from Cons.IH [OF rest, of s1] obtain s' es where
      "spin conv cs s1 = (None, s')"
      "carla_lidar_data s' = most_recent_lidar cs (carla_lidar_data s1)"
      "carla_gnss_data s' = most_recent_gnss cs (carla_gnss_data s1)"
      "carla_imu_data s' = most_recent_imu cs (carla_imu_data s1)"
      "heap s' = (\<lambda>a. if a \<in> lidar_headers cs then (heap s1 a)\<lparr>frame_id := ''odom''\<rparr>
                      else heap s1 a)"
      "publishers s' = publishers s1" "trace s' = trace s1 @ es" "published es = []"
      by blast
    with s1 show ?thesis
      by (simp add: spin_Cons GnssMsg cong: if_cong)
  next
    case (ImuMsg m)
    from update_carla_imu_data_ok [of m s] obtain s1 where s1:
      "update_carla_imu_data m s = (None, s1)" "carla_lidar_data s1 = carla_lidar_data s"
      "carla_gnss_data s1 = carla_gnss_data s" "carla_imu_data s1 = m"
      "heap s1 = heap s" "trace s1 = trace s @ [Log DEBUG ''Received imu data'']"
      "publishers s1 = publishers s"
      by (auto simp add: publishers_def)
    from Cons.IH [OF rest, of s1] obtain s' es where
      "spin conv cs s1 = (None, s')"
      "carla_lidar_data s' = most_recent_lidar cs (carla_lidar_data s1)"
      "carla_gnss_data s' = most_recent_gnss cs (carla_gnss_data s1)"
      "carla_imu_data s' = most_recent_imu cs (carla_imu_data s1)"
      "heap s' = (\<lambda>a. if a \<in> lidar_headers cs then (heap s1 a)\<lparr>frame_id := ''odom''\<rparr>
                      else heap s1 a)"
      "publishers s' = publishers s1" "trace s' = trace s1 @ es" "published es = []"
      by blast
    with s1 show ?thesis
      by (simp add: spin_Cons ImuMsg cong: if_cong)
  next
    case (TimerTick v)
    with Cons.prems show ?thesis by simp
  qed
qed

lemma most_recent_lidar_header:
  assumes "\<forall>c\<in>set cs. has_header c"
  shows "(lidar_headers cs \<noteq> {} \<longrightarrow>
       (\<exists>a\<in>lidar_headers cs. pc_header (most_recent_lidar cs d) = Some a)) \<and>
     (lidar_headers cs = {} \<longrightarrow> most_recent_lidar cs d = d)"
  using assms
proof (induction cs arbitrary: d)
  case Nil
  then show ?case by simp
next
  case (Cons c cs)
  then have rest: "\<forall>c\<in>set cs. has_header c" by simp
  show ?case
  proof (cases c)
    case (LidarMsg m)
    with Cons.prems obtain b where b: "pc_header m = Some b" by auto
    from Cons.IH [OF rest, of m] b show ?thesis
      by (cases "lidar_headers cs = {}") (auto simp add: LidarMsg)
  qed (use Cons.IH [OF rest, of d] in auto)
qed

lemma most_recent_lidar_same:
  "\<forall>c\<in>set cs. \<not> is_lidar c \<Longrightarrow> most_recent_lidar cs d = d"
  by (induction cs d rule: most_recent_lidar.induct) simp_all

text \<open>
  Claim C6, amended. After any finite sequence of writes through the three subscription
  callbacks (LiDAR messages carrying a header), the run completes and each stored sample is
  the most recent message written to its stream, or the one held before when the stream saw
  none: last write wins, nothing is merged. The only objects a write changes besides its own
  attribute are the Header objects of the LiDAR messages written, whose \<^verbatim>\<open>frame_id\<close> becomes
  \<^verbatim>\<open>"odom"\<close>. So the stored GNSS and IMU samples have the contents that were written, as long
  as they do not share their Header object with a LiDAR message; and once a LiDAR message was
  written, the stored LiDAR sample has the contents written except for the \<^verbatim>\<open>frame_id\<close> of
  its header.
\<close>

theorem last_write_wins:
  assumes "\<forall>c\<in>set cs. is_write c \<and> has_header c"
  shows "\<exists>s'. spin conv cs s = (None, s') \<and>
     carla_lidar_data s' = most_recent_lidar cs (carla_lidar_data s) \<and>
     carla_gnss_data s' = most_recent_gnss cs (carla_gnss_data s) \<and>
     carla_imu_data s' = most_recent_imu cs (carla_imu_data s) \<and>
     heap s' = (\<lambda>a. if a \<in> lidar_headers cs then (heap s a)\<lparr>frame_id := ''odom''\<rparr>
                     else heap s a) \<and>
     (set_option (fix_header (carla_gnss_data s')) \<inter> lidar_headers cs = {} \<longrightarrow>
        wire_fix (heap s') (carla_gnss_data s') =
          wire_fix (heap s) (most_recent_gnss cs (carla_gnss_data s))) \<and>
     (set_option (imu_header (carla_imu_data s')) \<inter> lidar_headers cs = {} \<longrightarrow>
        wire_imu (heap s') (carla_imu_data s') =
          wire_imu (heap s) (most_recent_imu cs (carla_imu_data s))) \<and>
     (lidar_headers cs \<noteq> {} \<longrightarrow>
        (\<exists>a. pc_header (carla_lidar_data s') = Some a \<and>
          wire_cloud (heap s') (carla_lidar_data s') =
            (wire_cloud (heap s) (most_recent_lidar cs (carla_lidar_data s)))
              \<lparr>pc_header := Some ((heap s a)\<lparr>frame_id := ''odom''\<rparr>)\<rparr>)) \<and>
     (lidar_headers cs = {} \<longrightarrow>
        wire_cloud (heap s') (carla_lidar_data s') = wire_cloud (heap s) (carla_lidar_data s))"
proof -
  from spin_writes [OF assms, of conv s] obtain s' where run: "spin conv cs s = (None, s')"
    and l: "carla_lidar_data s' = most_recent_lidar cs (carla_lidar_data s)"
    and g: "carla_gnss_data s' = most_recent_gnss cs (carla_gnss_data s)"
    and i: "carla_imu_data s' = most_recent_imu cs (carla_imu_data s)"
    and h: "heap s' = (\<lambda>a. if a \<in> lidar_headers cs then (heap s a)\<lparr>frame_id := ''odom''\<rparr>
                     else heap s a)"
    by blast
  from assms have hh: "\<forall>c\<in>set cs. has_header c" by simp
  note m = most_recent_lidar_header [OF hh, of "carla_lidar_data s"]
  have fix_ok: "set_option (fix_header (carla_gnss_data s')) \<inter> lidar_headers cs = {} \<longrightarrow>
        wire_fix (heap s') (carla_gnss_data s') =
          wire_fix (heap s) (most_recent_gnss cs (carla_gnss_data s))"
    using g h by (cases "fix_header (carla_gnss_data s')") (auto simp add: wire_fix_def)
  have imu_ok: "set_option (imu_header (carla_imu_data s')) \<inter> lidar_headers cs = {} \<longrightarrow>
        wire_imu (heap s') (carla_imu_data s') =
          wire_imu (heap s) (most_recent_imu cs (carla_imu_data s))"
    using i h by (cases "imu_header (carla_imu_data s')") (auto simp add: wire_imu_def)
  have cloud: "lidar_headers cs \<noteq> {} \<longrightarrow>
        (\<exists>a. pc_header (carla_lidar_data s') = Some a \<and>
          wire_cloud (heap s') (carla_lidar_data s') =
            (wire_cloud (heap s) (most_recent_lidar cs (carla_lidar_data s)))
              \<lparr>pc_header := Some ((heap s a)\<lparr>frame_id := ''odom''\<rparr>)\<rparr>)"
    using m l h by (auto simp add: wire_cloud_def)
  have same: "lidar_headers cs = {} \<longrightarrow>
        wire_cloud (heap s') (carla_lidar_data s') = wire_cloud (heap s) (carla_lidar_data s)"
    using m l h by (auto simp add: wire_cloud_def)
  from run l g i h fix_ok imu_ok cloud same show ?thesis by blast
qed

theorem last_write_wins_witness:
  "\<exists>s'. spin carla_data_to_ros_spec
       [GnssMsg (default_fix 50), LidarMsg example_cloud, GnssMsg example_fix,
        ImuMsg example_imu] example_received = (None, s') \<and>
     carla_lidar_data s' = example_cloud \<and> carla_gnss_data s' = example_fix \<and>
     carla_imu_data s' = example_imu \<and>
     wire_fix (heap s') (carla_gnss_data s') =
       \<lparr>fix_header = Some \<lparr>stamp = \<lparr>time_sec = 5, time_nanosec = 0\<rparr>, frame_id = ''gnss''\<rparr>,
        fix_latitude = Some 1, fix_longitude = Some 2, fix_altitude = Some 3\<rparr> \<and>
     wire_cloud (heap s') (carla_lidar_data s') =
       \<lparr>pc_header = Some \<lparr>stamp = \<lparr>time_sec = 7, time_nanosec = 0\<rparr>, frame_id = ''odom''\<rparr>,
        pc_data = Some [1, 2, 3]\<rparr>"
proof -
  let ?cs = "[GnssMsg (default_fix 50), LidarMsg example_cloud, GnssMsg example_fix,
        ImuMsg example_imu]"
  have pre: "\<forall>c\<in>set ?cs. is_write c \<and> has_header c"
    by (simp add: example_cloud_def)
  from last_write_wins [OF pre, of carla_data_to_ros_spec example_received]
  obtain s' where run: "spin carla_data_to_ros_spec ?cs example_received = (None, s')"
    and l: "carla_lidar_data s' = most_recent_lidar ?cs (carla_lidar_data example_received)"
    and g: "carla_gnss_data s' = most_recent_gnss ?cs (carla_gnss_data example_received)"
    and i: "carla_imu_data s' = most_recent_imu ?cs (carla_imu_data example_received)"
    and h: "heap s' = (\<lambda>a. if a \<in> lidar_headers ?cs
        then (heap example_received a)\<lparr>frame_id := ''odom''\<rparr> else heap example_received a)"
    by blast
  from run l g i h show ?thesis
    by (simp add: example_cloud_def example_fix_def example_received_eq example_heap_def
        wire_fix_def wire_cloud_def)
qed

text \<open>The claim as stated fails for the LiDAR stream when the stored field is compared by
  content: the sample written has \<^verbatim>\<open>frame_id = "lidar"\<close>, the sample stored has
  \<^verbatim>\<open>frame_id = "odom"\<close>.\<close>

theorem stored_lidar_sample_is_not_as_written:
  "wire_cloud (heap example_received) example_cloud =
     \<lparr>pc_header = Some \<lparr>stamp = \<lparr>time_sec = 7, time_nanosec = 0\<rparr>, frame_id = ''lidar''\<rparr>,
      pc_data = Some [1, 2, 3]\<rparr> \<and>
   wire_cloud (heap (snd (spin carla_data_to_ros_spec [LidarMsg example_cloud] example_received)))
      (carla_lidar_data (snd (spin carla_data_to_ros_spec [LidarMsg example_cloud]
         example_received))) =
     \<lparr>pc_header = Some \<lparr>stamp = \<lparr>time_sec = 7, time_nanosec = 0\<rparr>, frame_id = ''odom''\<rparr>,
      pc_data = Some [1, 2, 3]\<rparr> \<and>
   wire_cloud (heap (snd (spin carla_data_to_ros_spec [LidarMsg example_cloud] example_received)))
      (carla_lidar_data (snd (spin carla_data_to_ros_spec [LidarMsg example_cloud]
         example_received))) \<noteq>
     wire_cloud (heap example_received) example_cloud"
  by (simp add: spin_def update_carla_lidar_data_def example_cloud_def example_received_eq
      example_heap_def wire_cloud_def)

subsection \<open>The LiDAR sample from callback to publication\<close>

lemma cycle_cloud:
  assumes "fix_header (carla_gnss_data s) = Some g"
    and "imu_angular_velocity (carla_imu_data s) = Some w"
    and "publishers s = [Some p1, Some p2, Some p3, Some p4, Some p5, Some p6]"
  shows "\<exists>s' es. publish_vehicle_data vehicle conv s = (None, s') \<and>
     trace s' = trace s @ es \<and>
     hd (published es) = WPointCloud2 (wire_cloud (heap s) (carla_lidar_data s))"
  using assms
  by (simp add: cycle_defs Let_def publishers_def)

text \<open>
  Claim C3, amended. A LiDAR message \<open>m\<close> with a header is handed to the LiDAR callback; any
  messages may follow on the three streams; then the timer ticks, with a stored GNSS sample
  that has a header, a stored IMU sample that has an angular velocity and the six publishers
  in place. The run completes, and the first message published is the PointCloud: it is the
  most recent LiDAR message of the run, which is \<open>m\<close> itself when no other LiDAR message
  followed it (a sample replaced before the tick is never published), and it is that message
  as it was received except for the \<^verbatim>\<open>frame_id\<close> of its header, which is \<^verbatim>\<open>"odom"\<close>; the
  stamp and the point data are those received.
\<close>

theorem lidar_sample_published:
  assumes "pc_header m = Some a"
    and "\<forall>c\<in>set cs. is_write c \<and> has_header c"
    and "fix_header (most_recent_gnss cs (carla_gnss_data s)) = Some g"
    and "imu_angular_velocity (most_recent_imu cs (carla_imu_data s)) = Some w"
    and "publishers s = [Some p1, Some p2, Some p3, Some p4, Some p5, Some p6]"
  shows "\<exists>s' a'. spin conv (LidarMsg m # cs @ [TimerTick vehicle]) s = (None, s') \<and>
     pc_header (most_recent_lidar cs m) = Some a' \<and>
     hd (published (emitted s s')) =
       WPointCloud2 ((wire_cloud (heap s) (most_recent_lidar cs m))
         \<lparr>pc_header := Some ((heap s a')\<lparr>frame_id := ''odom''\<rparr>)\<rparr>) \<and>
     ((\<forall>c\<in>set cs. \<not> is_lidar c) \<longrightarrow> most_recent_lidar cs m = m)"
proof -
  let ?ws = "LidarMsg m # cs"
  have ws: "\<forall>c\<in>set ?ws. is_write c \<and> has_header c"
    using assms(1,2) by simp
  from spin_writes [OF ws, of conv s] obtain s2 es where s2:
    "spin conv ?ws s = (None, s2)"
    "carla_lidar_data s2 = most_recent_lidar cs m"
    "carla_gnss_data s2 = most_recent_gnss cs (carla_gnss_data s)"
    "carla_imu_data s2 = most_recent_imu cs (carla_imu_data s)"
    "heap s2 = (\<lambda>a. if a \<in> lidar_headers ?ws then (heap s a)\<lparr>frame_id := ''odom''\<rparr>
                     else heap s a)"
    "publishers s2 = publishers s" "trace s2 = trace s @ es" "published es = []"
    by auto
  from ws have "\<forall>c\<in>set ?ws. has_header c" by blast
  from most_recent_lidar_header [OF this, of "carla_lidar_data s"] assms(1)
  obtain a' where a': "a' \<in> lidar_headers ?ws" "pc_header (most_recent_lidar cs m) = Some a'"
    by auto
  have g: "fix_header (carla_gnss_data s2) = Some g"
    and w: "imu_angular_velocity (carla_imu_data s2) = Some w"
    and p: "publishers s2 = [Some p1, Some p2, Some p3, Some p4, Some p5, Some p6]"
    using s2 assms(3-5) by simp_all
  from cycle_cloud [OF g w p, of vehicle conv] obtain s3 fs where s3:
    "publish_vehicle_data vehicle conv s2 = (None, s3)" "trace s3 = trace s2 @ fs"
    "hd (published fs) = WPointCloud2 (wire_cloud (heap s2) (carla_lidar_data s2))"
    by blast
  have "spin conv (?ws @ [TimerTick vehicle]) s = (None, s3)"
    using s2(1) s3(1) by (simp only: spin_append) (simp add: spin_Cons spin_Nil)
  then have run: "spin conv (LidarMsg m # cs @ [TimerTick vehicle]) s = (None, s3)"
    by simp
  have "trace s3 = trace s @ (es @ fs)"
    using s2 s3 by simp
  from emitted_append [OF this]
  have "published (emitted s s3) = published fs"
    using s2 by (simp add: published_append)
  with s3(3) s2(2,5) a'
  have "hd (published (emitted s s3)) =
       WPointCloud2 ((wire_cloud (heap s) (most_recent_lidar cs m))
         \<lparr>pc_header := Some ((heap s a')\<lparr>frame_id := ''odom''\<rparr>)\<rparr>)"
    by (simp add: wire_cloud_def)
  with run a'(2) most_recent_lidar_same [of cs m] show ?thesis by blast
qed

theorem lidar_sample_published_witness:
  "\<exists>s'. spin carla_data_to_ros_spec
       [LidarMsg example_cloud, GnssMsg example_fix, LidarMsg later_cloud,
        ImuMsg example_imu, TimerTick example_vehicle] example_received = (None, s') \<and>
     hd (published (emitted example_received s')) =
       WPointCloud2
         \<lparr>pc_header = Some \<lparr>stamp = \<lparr>time_sec = 0, time_nanosec = 0\<rparr>, frame_id = ''odom''\<rparr>,
          pc_data = Some [4, 5]\<rparr>"
  using lidar_sample_published [of example_cloud 100
     "[GnssMsg example_fix, LidarMsg later_cloud, ImuMsg example_imu]"
     example_received 101 "\<lparr>v3_x = 0, v3_y = 0, v3_z = 1\<rparr>"
     "Publisher PointCloud2T (PStr ''/lidar'')" "Publisher GpswithHeadingT (PStr ''/gps'')"
     "Publisher OdometrywithGpsT (PStr ''/odom'')" "Publisher InsVelocityT (PStr ''/velocity'')"
     "Publisher ImuT (PStr ''/imu'')" "Publisher Vector3StampedT (PStr ''/position'')"
     carla_data_to_ros_spec example_vehicle]
  by (auto simp add: example_cloud_def later_cloud_def example_fix_def example_imu_def
      example_received_eq example_bridge_eq publishers_def example_heap_def wire_cloud_def
      default_header_def)

text \<open>The claim as stated fails: a message received with \<^verbatim>\<open>frame_id = "lidar"\<close> is published
  with \<^verbatim>\<open>frame_id = "odom"\<close>.\<close>

theorem published_cloud_differs_from_received:
  "wire_cloud (heap example_received) example_cloud =
     \<lparr>pc_header = Some \<lparr>stamp = \<lparr>time_sec = 7, time_nanosec = 0\<rparr>, frame_id = ''lidar''\<rparr>,
      pc_data = Some [1, 2, 3]\<rparr> \<and>
   hd (published (emitted example_received (snd (spin carla_data_to_ros_spec
        [LidarMsg example_cloud, TimerTick example_vehicle] example_received)))) =
     WPointCloud2
       \<lparr>pc_header = Some \<lparr>stamp = \<lparr>time_sec = 7, time_nanosec = 0\<rparr>, frame_id = ''odom''\<rparr>,
        pc_data = Some [1, 2, 3]\<rparr> \<and>
   hd (published (emitted example_received (snd (spin carla_data_to_ros_spec
        [LidarMsg example_cloud, TimerTick example_vehicle] example_received)))) \<noteq>
     WPointCloud2 (wire_cloud (heap example_received) example_cloud)"
  by (simp add: spin_def handler_defs cycle_defs Let_def wire_defs wire_cloud_def emitted_def
      example_received_eq example_bridge_eq VehicleInfoPublisher_def
      example_cloud_def example_heap_def default_fix_def default_imu_def)

subsection \<open>Heading\<close>

lemma binade_numeral:
  "binade (numeral k) v =
     (if 2 \<le> v then binade (pred_numeral k) (v / 2) + 1
      else if v < 1 then binade (pred_numeral k) (v * 2) - 1 else 0)"
  by (simp add: numeral_eq_Suc)

lemma round_half_even_int: "round_half_even (of_int k) = k"
  by (simp add: round_half_even_def)

lemma round_half_even_near: "\<bar>of_int (round_half_even q) - q\<bar> \<le> 1 / 2"
  unfolding round_half_even_def Let_def
  by (auto simp add: abs_if) linarith+

lemma binade_bounds:
  assumes "1 / 2 ^ n \<le> v" and "v < 2 ^ (n + 1)"
  shows "2 powi (binade n v) \<le> v \<and> v < 2 powi (binade n v + 1)"
  using assms
proof (induction n arbitrary: v)
  case 0
  then show ?case by simp
next
  case (Suc n)
  consider "2 \<le> v" | "v < 1" | "1 \<le> v" "v < 2" by linarith
  then show ?case
  proof cases
    case 1
    have "1 / 2 ^ n \<le> (1::real)" by simp
    with 1 have a: "1 / 2 ^ n \<le> v / 2" by linarith
    have b: "v / 2 < 2 ^ (n + 1)"
      using Suc.prems(2) by simp
    from Suc.IH [OF a b] 1 show ?thesis
      by (simp add: power_int_add)
  next
    case 2
    have a: "1 / 2 ^ n \<le> v * 2"
      using Suc.prems(1) by (simp add: field_simps)
    have "(1::real) \<le> 2 ^ n" by simp
    with 2 have "v < 2 ^ n" by linarith
    then have b: "v * 2 < 2 ^ (n + 1)" by simp
    from Suc.IH [OF a b] 2 show ?thesis
      by (simp add: power_int_diff power_int_add field_simps)
  next
    case 3
    then show ?thesis by simp
  qed
qed

lemma two_powi_less_imp: "(2::real) powi m < 2 powi n \<Longrightarrow> m < n"
  using power_int_increasing [of n m "2::real"] by (cases "m < n") auto

lemma round_double_exact:
  assumes v: "v = of_int m * 2 powi q"
    and m: "\<bar>m\<bar> < 2 ^ 53" and q: "- 1074 \<le> q" "q \<le> 971"
  shows "round_double v = v"
proof (cases "v = 0")
  case True
  then show ?thesis by (simp add: round_double_def)
next
  case False
  let ?b = "binade 2100 \<bar>v\<bar>"
  let ?e = "max ?b (- 1022)"
  from False v have m0: "m \<noteq> 0" by auto
  have av: "\<bar>v\<bar> = of_int \<bar>m\<bar> * 2 powi q"
    by (simp add: v abs_mult power_int_abs)
  have "1 \<le> \<bar>m\<bar>" using m0 by linarith
  then have "(1::real) \<le> of_int \<bar>m\<bar>" by linarith
  then have ge: "2 powi q \<le> \<bar>v\<bar>"
    unfolding av by (metis mult_le_cancel_right1 zero_less_power_int zero_less_numeral
        less_le_not_le)
  have "(2::real) powi (- 2100) \<le> 2 powi q"
    using q by (intro power_int_increasing) simp_all
  with ge have lo: "1 / 2 ^ 2100 \<le> \<bar>v\<bar>"
    by (simp add: power_int_minus_divide)
  have "of_int \<bar>m\<bar> < (2::real) ^ 53"
    using m by (metis of_int_less_numeral_power_cancel_iff)
  then have lt: "\<bar>v\<bar> < 2 powi (q + 53)"
    unfolding av by (simp add: power_int_add mult.commute)
  have "(2::real) powi (q + 53) \<le> 2 powi 2101"
    using q by (intro power_int_increasing) simp_all
  with lt have hi: "\<bar>v\<bar> < 2 ^ (2100 + 1)" by simp
  from binade_bounds [OF lo hi] have "2 powi ?b \<le> \<bar>v\<bar>" by simp
  with lt have "(2::real) powi ?b < 2 powi (q + 53)" by linarith
  then have "?b < q + 53" by (rule two_powi_less_imp)
  with q have d: "0 \<le> q - (?e - 52)" by simp
  have "\<bar>v\<bar> / 2 powi (?e - 52) = of_int \<bar>m\<bar> * 2 powi (q - (?e - 52))"
    unfolding av by (simp add: power_int_diff)
  also have "\<dots> = of_int (\<bar>m\<bar> * 2 ^ nat (q - (?e - 52)))"
    using d by (simp add: power_int_nonneg_exp)
  finally have "round_half_even (\<bar>v\<bar> / 2 powi (?e - 52)) = \<bar>m\<bar> * 2 ^ nat (q - (?e - 52))"
    by (simp only: round_half_even_int)
  then have "round_double v =
      sgn v * of_int (\<bar>m\<bar> * 2 ^ nat (q - (?e - 52))) * 2 powi (?e - 52)"
    using False by (simp add: round_double_def Let_def)
  also have "of_int (\<bar>m\<bar> * 2 ^ nat (q - (?e - 52))) =
      (of_int \<bar>m\<bar> :: real) * 2 powi (q - (?e - 52))"
    using d by (simp add: power_int_nonneg_exp)
  also have "sgn v * (of_int \<bar>m\<bar> * 2 powi (q - (?e - 52))) * 2 powi (?e - 52) = sgn v * \<bar>v\<bar>"
    unfolding av by (simp add: power_int_diff)
  also have "\<dots> = v" by (rule sgn_mult_abs)
  finally show ?thesis .
qed

lemma round_double_near:
  assumes "1 / 2 ^ 1022 \<le> \<bar>v\<bar>" and "\<bar>v\<bar> < 2 ^ 1024"
  shows "\<bar>round_double v - v\<bar> \<le> \<bar>v\<bar> / 2 ^ 53"
proof -
  let ?b = "binade 2100 \<bar>v\<bar>"
  let ?u = "(2::real) powi (?b - 52)"
  let ?n = "round_half_even (\<bar>v\<bar> / ?u)"
  have v0: "v \<noteq> 0" using assms(1) by auto
  have "(1::real) / 2 ^ 2100 \<le> 1 / 2 ^ 1022"
    by (intro divide_left_mono power_increasing) simp_all
  with assms(1) have lo: "1 / 2 ^ 2100 \<le> \<bar>v\<bar>" by linarith
  have "(2::real) ^ 1024 \<le> 2 ^ (2100 + 1)"
    by (intro power_increasing) simp_all
  with assms(2) have hi: "\<bar>v\<bar> < 2 ^ (2100 + 1)" by linarith
  from binade_bounds [OF lo hi] have b: "2 powi ?b \<le> \<bar>v\<bar>" "\<bar>v\<bar> < 2 powi (?b + 1)"
    by simp_all
  have "(2::real) powi (- 1022) \<le> \<bar>v\<bar>"
    using assms(1) by (simp add: power_int_minus_divide)
  with b(2) have "(2::real) powi (- 1022) < 2 powi (?b + 1)" by linarith
  then have "- 1022 < ?b + 1" by (rule two_powi_less_imp)
  then have e: "max ?b (- 1022) = ?b" by simp
  have u: "0 < ?u" by simp
  have uv: "?u \<le> \<bar>v\<bar> / 2 ^ 52"
    using b(1) by (simp add: power_int_diff field_simps)
  have rd: "round_double v = sgn v * of_int ?n * ?u"
    using v0 e by (simp add: round_double_def Let_def)
  have "round_double v - v = sgn v * ((of_int ?n - \<bar>v\<bar> / ?u) * ?u)"
  proof -
    have "sgn v * ((of_int ?n - \<bar>v\<bar> / ?u) * ?u) = sgn v * of_int ?n * ?u - sgn v * \<bar>v\<bar>"
      using u by (simp add: algebra_simps)
    then show ?thesis by (simp add: rd sgn_mult_abs)
  qed
  then have "\<bar>round_double v - v\<bar> = \<bar>of_int ?n - \<bar>v\<bar> / ?u\<bar> * ?u"
    using v0 u by (simp add: abs_mult abs_sgn_eq)
  also have "\<dots> \<le> 1 / 2 * ?u"
    using round_half_even_near [of "\<bar>v\<bar> / ?u"] u by (intro mult_right_mono) simp_all
  also have "\<dots> \<le> \<bar>v\<bar> / 2 ^ 53"
    using uv by simp
  finally show ?thesis .
qed

lemma round_double_minus_90: "round_double (- 90) = - 90"
  by (simp add: round_double_def round_half_even_def Let_def binade_numeral)

text \<open>
  Claim C8, amended. \<open>get_gps_data\<close> sets the heading of the GPS message to the result of the
  float subtraction \<^verbatim>\<open>yaw - 90\<close>: the double nearest to the yaw of the polled rotation minus 90.
  It is yaw minus 90 exactly whenever that number is a double (\<open>m * 2^q\<close> with \<open>|m| < 2^53\<close>
  and \<open>-1074 \<le> q \<le> 971\<close>), and within the relative error \<open>2^-53\<close> of it otherwise (in the
  normal range); in particular yaw 90 gives heading 0 and yaw 0 gives heading -90. The method
  needs the stored GNSS sample to have a header and the rotation to have been polled, which
  \<open>publish_vehicle_data\<close> does first.
\<close>

theorem heading_is_float_difference:
  assumes "fix_header (carla_gnss_data s) = Some a" and "pseudo_heading s = Some r"
  shows "\<exists>s'. get_gps_data s = (None, s') \<and>
     gps_heading (gps_data s') = round_double (rot_yaw r - 90) \<and>
     (\<forall>m q. rot_yaw r - 90 = of_int m * 2 powi q \<and> \<bar>m\<bar> < 2 ^ 53 \<and> - 1074 \<le> q \<and> q \<le> 971 \<longrightarrow>
        gps_heading (gps_data s') = rot_yaw r - 90) \<and>
     (1 / 2 ^ 1022 \<le> \<bar>rot_yaw r - 90\<bar> \<and> \<bar>rot_yaw r - 90\<bar> < 2 ^ 1024 \<longrightarrow>
        \<bar>gps_heading (gps_data s') - (rot_yaw r - 90)\<bar> \<le> \<bar>rot_yaw r - 90\<bar> / 2 ^ 53) \<and>
     (rot_yaw r = 90 \<longrightarrow> gps_heading (gps_data s') = 0) \<and>
     (rot_yaw r = 0 \<longrightarrow> gps_heading (gps_data s') = - 90)"
proof -
  obtain s' where run: "get_gps_data s = (None, s')"
    and h: "gps_heading (gps_data s') = round_double (rot_yaw r - 90)"
    using assms by (simp add: get_gps_data_def Let_def float_sub_def)
  have exact: "\<forall>m q. rot_yaw r - 90 = of_int m * 2 powi q \<and> \<bar>m\<bar> < 2 ^ 53 \<and>
        - 1074 \<le> q \<and> q \<le> 971 \<longrightarrow> gps_heading (gps_data s') = rot_yaw r - 90"
    using round_double_exact [of "rot_yaw r - 90"] h by auto
  have near: "1 / 2 ^ 1022 \<le> \<bar>rot_yaw r - 90\<bar> \<and> \<bar>rot_yaw r - 90\<bar> < 2 ^ 1024 \<longrightarrow>
        \<bar>gps_heading (gps_data s') - (rot_yaw r - 90)\<bar> \<le> \<bar>rot_yaw r - 90\<bar> / 2 ^ 53"
    using round_double_near [of "rot_yaw r - 90"] h by simp
  have "rot_yaw r = 90 \<longrightarrow> gps_heading (gps_data s') = 0"
    using h by (simp add: round_double_def)
  moreover have "rot_yaw r = 0 \<longrightarrow> gps_heading (gps_data s') = - 90"
    using h by (simp add: round_double_minus_90)
  ultimately show ?thesis using run h exact near by blast
qed

theorem heading_is_float_difference_witness:
  "\<exists>s'. get_gps_data (snd (update_vehicle_state_info other_vehicle carla_data_to_ros_spec
        example_bridge)) = (None, s') \<and> gps_heading (gps_data s') = - 90"
proof -
  let ?s = "snd (update_vehicle_state_info other_vehicle carla_data_to_ros_spec example_bridge)"
  have pre: "fix_header (carla_gnss_data ?s) = Some 2"
    "pseudo_heading ?s = Some (rotation (get_transform other_vehicle))"
    by (simp_all add: example_bridge_eq VehicleInfoPublisher_def update_vehicle_state_info_def
        Let_def default_fix_def)
  have "rot_yaw (rotation (get_transform other_vehicle)) = 0"
    by (simp add: other_vehicle_def)
  with heading_is_float_difference [OF pre] show ?thesis by blast
qed

text \<open>The claim as stated fails: for the single-precision yaw nearest to \<open>10^-7\<close>, which is
  \<open>14073749 / 2^47\<close>, the heading is the double \<open>-3166593484476443 / 2^45\<close> (Python prints it
  as \<^verbatim>\<open>-89.9999999\<close>), which is not the yaw minus 90.\<close>

theorem small_yaw_heading_is_rounded:
  "fst (get_gps_data (snd (update_vehicle_state_info small_yaw_vehicle carla_data_to_ros_spec
       example_bridge))) = None \<and>
   gps_heading (gps_data (snd (get_gps_data (snd (update_vehicle_state_info small_yaw_vehicle
       carla_data_to_ros_spec example_bridge))))) = - (3166593484476443 / 2 ^ 45) \<and>
   gps_heading (gps_data (snd (get_gps_data (snd (update_vehicle_state_info small_yaw_vehicle
       carla_data_to_ros_spec example_bridge))))) \<noteq>
     rot_yaw (rotation (get_transform small_yaw_vehicle)) - 90"
  by (simp add: get_gps_data_def update_vehicle_state_info_def Let_def example_bridge_eq
      VehicleInfoPublisher_def default_fix_def small_yaw_vehicle_def float_sub_def
      round_double_def round_half_even_def binade_numeral)

end
